theory Spec2Isabelle
  imports Main "HOL-Library.Word" "HOL-Library.Log_Nat"
begin

section \<open>Values, arrays and the artifact store\<close>

text \<open>
  The pipeline of \<^verbatim>\<open>backend/processing.py\<close> works on numpy arrays that it loads
  from and saves to four fixed paths. An array is its shape together with its elements
  in row-major (C) order, as numpy stores it.
\<close>

record 'a ndarray =
  shape :: "nat list"
  data :: "'a list"

text \<open>
  A float64 sample: a finite value (the rational number the bit pattern denotes), one of
  the two infinities, or not-a-number. The sign of zero is not represented.
\<close>

datatype f64 = Fin rat | PInf | MInf | NaN

text \<open>Python's and numpy's \<^verbatim>\<open>a > b\<close> on float64: false as soon as one side is NaN.\<close>

fun f64_gt :: "f64 \<Rightarrow> f64 \<Rightarrow> bool" where
  "f64_gt NaN _ = False"
| "f64_gt _ NaN = False"
| "f64_gt (Fin x) (Fin y) = (y < x)"
| "f64_gt (Fin x) PInf = False"
| "f64_gt (Fin x) MInf = True"
| "f64_gt PInf PInf = False"
| "f64_gt PInf _ = True"
| "f64_gt MInf _ = False"

text \<open>
  The arrays the program stores: float64 (the synthetic volume, the spacing vector),
  int16 (a decoded and resampled volume) and uint8 (the mask).
\<close>

datatype npy =
  F64 "f64 ndarray"
| I16 "16 word ndarray"
| U8 "8 word ndarray"

fun npy_shape :: "npy \<Rightarrow> nat list" where
  "npy_shape (F64 a) = shape a"
| "npy_shape (I16 a) = shape a"
| "npy_shape (U8 a) = shape a"

text \<open>The elements of a stored array as float64 values; every int16 and uint8 is one exactly.\<close>

fun npy_values :: "npy \<Rightarrow> f64 list" where
  "npy_values (F64 a) = data a"
| "npy_values (I16 a) = map (\<lambda>x. Fin (of_int (sint x))) (data a)"
| "npy_values (U8 a) = map (\<lambda>x. Fin (of_int (uint x))) (data a)"

text \<open>The exceptions of Python that the pipeline can meet; all derive from \<^verbatim>\<open>Exception\<close>.\<close>

datatype exn =
  FileNotFoundError
| NotADirectoryError
| OSError
| MemoryError
| ValueError
| RuntimeError
| IndexError
| OverflowError

type_synonym triangle = "f64 list list"

text \<open>
  What a path of the store holds: a complete \<^verbatim>\<open>.npy\<close> array, a complete STL mesh
  (its triangles, three vertices of three coordinates each), or the beginning of a file
  whose writing was interrupted.
\<close>

datatype artifact = NpyFile npy | StlFile "triangle list" | Truncated

text \<open>
  Writing a file opens the path for writing, which empties it, and then writes the
  content. The environment decides how a write ends: it succeeds, it is refused before
  the file is opened (the path is left as it was), or it breaks after the file was opened
  (the path is left with an incomplete file).
\<close>

datatype write_outcome = WriteOk | WriteRefused | WriteBroken

text \<open>
  The environment of a run: the store, the outcomes of the coming file writes and of the
  coming array allocations (one entry is taken per operation; past the end of the list
  every operation succeeds), and the draw of \<^verbatim>\<open>np.random.normal\<close>, element by
  element in the order of the array.
\<close>

record world =
  files :: "string \<rightharpoonup> artifact"
  writes :: "write_outcome list"
  allocs :: "bool list"
  noise :: "nat \<Rightarrow> f64"

definition OUTPUT_DIR :: string where
  "OUTPUT_DIR = ''backend/output''"

definition MODELS_DIR :: string where
  "MODELS_DIR = ''backend/models''"

text \<open>\<^verbatim>\<open>os.path.join\<close> of a directory without a trailing separator and a relative name.\<close>

definition path_join :: "string \<Rightarrow> string \<Rightarrow> string" where
  "path_join d f = d @ ''/'' @ f"

definition VOLUME_PATH :: string where
  "VOLUME_PATH = path_join OUTPUT_DIR ''volume.npy''"

definition SPACING_PATH :: string where
  "SPACING_PATH = path_join OUTPUT_DIR ''spacing.npy''"

definition SEGMENTED_VOLUME_PATH :: string where
  "SEGMENTED_VOLUME_PATH = path_join OUTPUT_DIR ''segmented_volume.npy''"

definition STL_MODEL_PATH :: string where
  "STL_MODEL_PATH = path_join MODELS_DIR ''organ_model.stl''"

definition next_write :: "world \<Rightarrow> write_outcome" where
  "next_write w = (case writes w of [] \<Rightarrow> WriteOk | x # _ \<Rightarrow> x)"

text \<open>One file write at path \<open>p\<close> with content \<open>c\<close>.\<close>

definition write_file :: "string \<Rightarrow> artifact \<Rightarrow> world \<Rightarrow> (exn + unit) \<times> world" where
  "write_file p c w =
     (let w1 = w\<lparr>writes := tl (writes w)\<rparr> in
      case next_write w of
        WriteOk \<Rightarrow> (Inr (), w1\<lparr>files := (files w)(p \<mapsto> c)\<rparr>)
      | WriteRefused \<Rightarrow> (Inl OSError, w1)
      | WriteBroken \<Rightarrow> (Inl OSError, w1\<lparr>files := (files w)(p \<mapsto> Truncated)\<rparr>))"

definition np_save :: "string \<Rightarrow> npy \<Rightarrow> world \<Rightarrow> (exn + unit) \<times> world" where
  "np_save p a w = write_file p (NpyFile a) w"

text \<open>\<^verbatim>\<open>np.load\<close>: a missing file and a file that is no complete array both raise.\<close>

definition np_load :: "string \<Rightarrow> world \<Rightarrow> exn + npy" where
  "np_load p w =
     (case files w p of
        None \<Rightarrow> Inl FileNotFoundError
      | Some (NpyFile a) \<Rightarrow> Inr a
      | Some _ \<Rightarrow> Inl ValueError)"

section \<open>Exceptions and effects\<close>

text \<open>
  A Python function that reads and writes the environment and may raise is a function
  from the world to a result, an exception (\<open>Inl\<close>) or a value (\<open>Inr\<close>), and the world it
  leaves.
\<close>

type_synonym 'a py = "world \<Rightarrow> (exn + 'a) \<times> world"

definition py_return :: "'a \<Rightarrow> 'a py" where
  "py_return x w = (Inr x, w)"

definition py_raise :: "exn \<Rightarrow> 'a py" where
  "py_raise e w = (Inl e, w)"

text \<open>Sequencing: an exception of the first statement skips the rest.\<close>

definition py_bind :: "'a py \<Rightarrow> ('a \<Rightarrow> 'b py) \<Rightarrow> 'b py" where
  "py_bind m f w = (case m w of (Inl e, w') \<Rightarrow> (Inl e, w') | (Inr x, w') \<Rightarrow> f x w')"

text \<open>\<^verbatim>\<open>try: m except Exception as e: h e\<close>; the handler runs in the world the body left.\<close>

definition py_try :: "'a py \<Rightarrow> (exn \<Rightarrow> 'a py) \<Rightarrow> 'a py" where
  "py_try m h w = (case m w of (Inl e, w') \<Rightarrow> h e w' | (Inr x, w') \<Rightarrow> (Inr x, w'))"

text \<open>A computation that does not touch the world.\<close>

definition py_lift :: "exn + 'a \<Rightarrow> 'a py" where
  "py_lift r w = (r, w)"

text \<open>The allocation of an array of the size of a volume.\<close>

definition np_alloc :: "unit py" where
  "np_alloc w =
     (case allocs w of
        [] \<Rightarrow> (Inr (), w)
      | ok # rest \<Rightarrow> (if ok then Inr () else Inl MemoryError, w\<lparr>allocs := rest\<rparr>))"

section \<open>Float64 arithmetic\<close>

text \<open>
  numpy computes on float64 with the operations of IEEE 754 binary64 in the default
  rounding mode: the exact result is rounded to the nearest value with a significand of
  53 bits, a tie going to the even significand. \<open>fl\<close> is this rounding on the rationals:
  below \<open>2 powi (- 1022)\<close> the spacing of the values stays \<open>2 powi (- 1074)\<close>
  (subnormals), and a result that rounds to \<open>2 ^ 1024\<close> or beyond is an infinity.
\<close>

definition round_half_even :: "rat \<Rightarrow> int" where
  "round_half_even x =
     (let f = \<lfloor>x\<rfloor>; d = x - of_int f in
      if d < 1 / 2 then f else if 1 / 2 < d then f + 1 else if even f then f else f + 1)"

text \<open>The binary exponent of a positive rational: \<open>2 powi (ilog2 x) \<le> x < 2 powi (ilog2 x + 1)\<close>.\<close>

definition ilog2 :: "rat \<Rightarrow> int" where
  "ilog2 x =
     (if 1 \<le> x then int (floorlog 2 (nat \<lfloor>x\<rfloor>)) - 1
      else - int (floorlog 2 (nat (\<lceil>1 / x\<rceil> - 1))))"

definition fl :: "rat \<Rightarrow> f64" where
  "fl x =
     (if x = 0 then Fin 0
      else
        let e = max (ilog2 \<bar>x\<bar>) (- 1022);
            q = 2 powi (e - 52);
            y = of_int (round_half_even (x / q)) * q
        in if 2 ^ 1024 \<le> \<bar>y\<bar> then (if 0 < x then PInf else MInf) else Fin y)"

definition f64_inf :: "bool \<Rightarrow> f64" where
  "f64_inf positive = (if positive then PInf else MInf)"

fun f64_add :: "f64 \<Rightarrow> f64 \<Rightarrow> f64" where
  "f64_add NaN _ = NaN"
| "f64_add _ NaN = NaN"
| "f64_add (Fin x) (Fin y) = fl (x + y)"
| "f64_add PInf MInf = NaN"
| "f64_add MInf PInf = NaN"
| "f64_add PInf _ = PInf"
| "f64_add MInf _ = MInf"
| "f64_add _ PInf = PInf"
| "f64_add _ MInf = MInf"

fun f64_mul :: "f64 \<Rightarrow> f64 \<Rightarrow> f64" where
  "f64_mul NaN _ = NaN"
| "f64_mul _ NaN = NaN"
| "f64_mul (Fin x) (Fin y) = fl (x * y)"
| "f64_mul (Fin x) PInf = (if x = 0 then NaN else f64_inf (0 < x))"
| "f64_mul (Fin x) MInf = (if x = 0 then NaN else f64_inf (x < 0))"
| "f64_mul PInf (Fin y) = (if y = 0 then NaN else f64_inf (0 < y))"
| "f64_mul MInf (Fin y) = (if y = 0 then NaN else f64_inf (y < 0))"
| "f64_mul PInf PInf = PInf"
| "f64_mul MInf MInf = PInf"
| "f64_mul PInf MInf = MInf"
| "f64_mul MInf PInf = MInf"

text \<open>
  Division; numpy does not raise on a zero divisor, it gives an infinity, or NaN for
  \<open>0 / 0\<close>. A zero divisor counts as positive.
\<close>

fun f64_div :: "f64 \<Rightarrow> f64 \<Rightarrow> f64" where
  "f64_div NaN _ = NaN"
| "f64_div _ NaN = NaN"
| "f64_div (Fin x) (Fin y) =
     (if y = 0 then (if x = 0 then NaN else f64_inf (0 < x)) else fl (x / y))"
| "f64_div (Fin x) _ = Fin 0"
| "f64_div PInf (Fin y) = f64_inf (0 \<le> y)"
| "f64_div MInf (Fin y) = f64_inf (y < 0)"
| "f64_div _ _ = NaN"

text \<open>\<^verbatim>\<open>np.round\<close>: to the nearest integer, a tie to the even one; the result is a float64.\<close>

fun f64_round :: "f64 \<Rightarrow> f64" where
  "f64_round (Fin x) = Fin (of_int (round_half_even x))"
| "f64_round v = v"

text \<open>\<^verbatim>\<open>a == b\<close> on float64.\<close>

fun f64_eq :: "f64 \<Rightarrow> f64 \<Rightarrow> bool" where
  "f64_eq (Fin x) (Fin y) = (x = y)"
| "f64_eq PInf PInf = True"
| "f64_eq MInf MInf = True"
| "f64_eq _ _ = False"

text \<open>The conversion of an array dimension (an int64) to float64.\<close>

definition f64_of_nat :: "nat \<Rightarrow> f64" where
  "f64_of_nat n = fl (of_nat n)"

section \<open>The volume source\<close>

subsection \<open>Procedural synthesis\<close>

text \<open>
  \<^verbatim>\<open>generate_synthetic_volume\<close> fills a cube of 128 voxels per axis in two passes of three
  nested loops over \<open>z\<close>, \<open>y\<close> and \<open>x\<close>. Each pass writes the voxel of its own index only, so
  the array after the loops is the table of the voxel values in the order of the indices.
\<close>

definition vol_size :: nat where
  "vol_size = 128"

definition center :: nat where
  "center = vol_size div 2"

definition radius :: nat where
  "radius = vol_size div 4"

definition small_center :: "nat list" where
  "small_center = [center + 15, center - 10, center]"

definition small_radius :: nat where
  "small_radius = vol_size div 8"

text \<open>
  The distances are \<^verbatim>\<open>np.sqrt\<close> of a sum of three integer squares. The square root of
  float64 is rounded correctly, hence monotone and exact on a perfect square, so that
  for a natural number \<open>r\<close> the comparison of the root with \<open>r\<close> is the comparison of the
  sum with \<open>r * r\<close>.
\<close>

definition sq_dist :: "nat \<Rightarrow> nat \<Rightarrow> nat \<Rightarrow> nat \<Rightarrow> nat \<Rightarrow> nat \<Rightarrow> int" where
  "sq_dist x y z cx cy cz =
     (int x - int cx) ^ 2 + (int y - int cy) ^ 2 + (int z - int cz) ^ 2"

definition sqrt_lt :: "int \<Rightarrow> nat \<Rightarrow> bool" where
  "sqrt_lt d2 r = (d2 < int (r * r))"

definition sqrt_ge :: "int \<Rightarrow> nat \<Rightarrow> bool" where
  "sqrt_ge d2 r = (int (r * r) \<le> d2)"

text \<open>The first pass, on an array of zeros: the central sphere and the shell around it.\<close>

definition first_pass :: "nat \<Rightarrow> nat \<Rightarrow> nat \<Rightarrow> rat" where
  "first_pass z y x =
     (let distance = sq_dist x y z center center center in
      if sqrt_lt distance radius then 50
      else if sqrt_lt distance (radius + 5) \<and> sqrt_ge distance radius then 800
      else 0)"

text \<open>The second pass: the smaller sphere, written over what the first pass left.\<close>

definition second_pass :: "rat \<Rightarrow> nat \<Rightarrow> nat \<Rightarrow> nat \<Rightarrow> rat" where
  "second_pass v z y x =
     (let distance = sq_dist x y z (small_center ! 0) (small_center ! 1) (small_center ! 2) in
      if sqrt_lt distance small_radius then 100 else v)"

definition tabulate3 :: "nat \<Rightarrow> (nat \<Rightarrow> nat \<Rightarrow> nat \<Rightarrow> 'a) \<Rightarrow> 'a ndarray" where
  "tabulate3 n f =
     \<lparr>shape = [n, n, n],
      data = concat (map (\<lambda>z. concat (map (\<lambda>y. map (\<lambda>x. f z y x) [0..<n]) [0..<n])) [0..<n])\<rparr>"

definition spheres :: "rat ndarray" where
  "spheres = tabulate3 vol_size (\<lambda>z y x. second_pass (first_pass z y x) z y x)"

text \<open>
  \<^verbatim>\<open>volume + noise\<close>: the float32 array of the spheres plus the float64 draw of
  \<^verbatim>\<open>np.random.normal(0, 10, volume.shape)\<close>, a float64 array.
\<close>

definition add_noise :: "rat ndarray \<Rightarrow> (nat \<Rightarrow> f64) \<Rightarrow> f64 ndarray" where
  "add_noise volume draw =
     \<lparr>shape = shape volume,
      data = map (\<lambda>i. f64_add (Fin (data volume ! i)) (draw i)) [0..<length (data volume)]\<rparr>"

definition unit_spacing :: "f64 ndarray" where
  "unit_spacing = \<lparr>shape = [3], data = [Fin 1, Fin 1, Fin 1]\<rparr>"

text \<open>
  \<^verbatim>\<open>generate_synthetic_volume\<close>. Three arrays of the size of the volume are allocated
  (\<^verbatim>\<open>np.zeros\<close>, the noise, the sum), then the volume and the spacing are saved. The
  handler of its \<^verbatim>\<open>try\<close> logs and raises the exception again.
\<close>

definition generate_synthetic_volume :: "bool py" where
  "generate_synthetic_volume =
     py_bind np_alloc (\<lambda>_.
     py_bind np_alloc (\<lambda>_.
     py_bind np_alloc (\<lambda>_. (\<lambda>w.
       (let volume = add_noise spheres (noise w) in
        py_bind (np_save VOLUME_PATH (F64 volume)) (\<lambda>_.
        py_bind (np_save SPACING_PATH (F64 unit_spacing)) (\<lambda>_.
        py_return True))) w))))"

subsection \<open>The intensity normalizer\<close>

text \<open>
  A decoded pixel is an integer of the pixel type of the image. \<^verbatim>\<open>astype(np.int16)\<close>
  keeps the low 16 bits, read as a signed number.
\<close>

definition astype_int16 :: "int ndarray \<Rightarrow> 16 word ndarray" where
  "astype_int16 a = \<lparr>shape = shape a, data = map word_of_int (data a)\<rparr>"

text \<open>\<^verbatim>\<open>image_array[image_array == -2000] = 0\<close>, on the int16 array.\<close>

definition clear_sentinel :: "16 word ndarray \<Rightarrow> 16 word ndarray" where
  "clear_sentinel a = \<lparr>shape = shape a, data = map (\<lambda>v. if v = - 2000 then 0 else v) (data a)\<rparr>"

definition convert_to_hu :: "int ndarray \<Rightarrow> 16 word ndarray" where
  "convert_to_hu image_array = clear_sentinel (astype_int16 image_array)"

subsection \<open>The resampler\<close>

text \<open>
  The arithmetic of numpy on two one-dimensional arrays: element by element when the
  lengths agree, an array of one element is stretched, any other pair raises.
\<close>

definition broadcast2 :: "('a \<Rightarrow> 'b \<Rightarrow> 'c) \<Rightarrow> 'a list \<Rightarrow> 'b list \<Rightarrow> exn + 'c list" where
  "broadcast2 f xs ys =
     (if length xs = length ys then Inr (map2 f xs ys)
      else if length xs = 1 then Inr (map (f (hd xs)) ys)
      else if length ys = 1 then Inr (map (\<lambda>x. f x (hd ys)) xs)
      else Inl ValueError)"

text \<open>
  The first four lines of \<^verbatim>\<open>resample\<close>: from the shape and the two spacings to
  \<^verbatim>\<open>real_resize_factor\<close> and the new spacing.
\<close>

definition resample_factors :: "nat list \<Rightarrow> f64 list \<Rightarrow> f64 list \<Rightarrow> exn + (f64 list \<times> f64 list)" where
  "resample_factors volume_shape original_spacing new_spacing =
     (case broadcast2 f64_div original_spacing new_spacing of
        Inl e \<Rightarrow> Inl e
      | Inr resize_factor \<Rightarrow>
     (case broadcast2 f64_mul (map f64_of_nat volume_shape) resize_factor of
        Inl e \<Rightarrow> Inl e
      | Inr scaled \<Rightarrow>
     (let new_shape = map f64_round scaled in
      case broadcast2 f64_div new_shape (map f64_of_nat volume_shape) of
        Inl e \<Rightarrow> Inl e
      | Inr real_resize_factor \<Rightarrow>
     (case broadcast2 f64_div original_spacing real_resize_factor of
        Inl e \<Rightarrow> Inl e
      | Inr spacing' \<Rightarrow> Inr (real_resize_factor, spacing')))))"

text \<open>
  The arrays are computed element by element: on one axis with the voxel count \<open>c\<close>,
  the spacing \<open>s\<close> and the target spacing \<open>t\<close>, \<^verbatim>\<open>real_resize_factor\<close> is
\<close>

definition axis_factor :: "nat \<Rightarrow> f64 \<Rightarrow> f64 \<Rightarrow> f64" where
  "axis_factor c s t = f64_div (f64_round (f64_mul (f64_of_nat c) (f64_div s t))) (f64_of_nat c)"

text \<open>
  \<^verbatim>\<open>resample\<close>. The interpolation \<^verbatim>\<open>scipy.ndimage.zoom(volume, factor, mode='nearest')\<close>
  belongs to a library and is a parameter.
\<close>

definition resample ::
  "('a ndarray \<Rightarrow> f64 list \<Rightarrow> exn + 'a ndarray) \<Rightarrow> 'a ndarray \<Rightarrow> f64 list \<Rightarrow> f64 list
     \<Rightarrow> exn + ('a ndarray \<times> f64 list)" where
  "resample zoom volume original_spacing new_spacing =
     (case resample_factors (shape volume) original_spacing new_spacing of
        Inl e \<Rightarrow> Inl e
      | Inr (real_resize_factor, spacing') \<Rightarrow>
          (case zoom volume real_resize_factor of
             Inl e \<Rightarrow> Inl e
           | Inr resampled \<Rightarrow> Inr (resampled, spacing')))"

definition default_new_spacing :: "f64 list" where
  "default_new_spacing = [Fin 1, Fin 1, Fin 1]"

subsection \<open>Decoding the slice directory\<close>

text \<open>
  What \<^verbatim>\<open>process_dicom\<close> sees of the input directory: it is missing, it is not a
  directory, or it lists entries, each a name and whether it is a regular file.
\<close>

datatype dicom_dir = Missing | NotDir | Listing "(string \<times> bool) list"

text \<open>
  An image as SimpleITK gives it: the pixel array in the order (z, y, x), with pixels of
  an integer type; the spacing in the order (x, y, z); the metadata of the file.
\<close>

record sitk_image =
  pixels :: "int ndarray"
  spacing_xyz :: "f64 list"
  metadata :: "(string \<times> string) list"

text \<open>
  The libraries the pipeline calls, as results of their calls: the series identifiers
  GDCM finds in the directory, the file names of a series, the image a reader makes of a
  list of files, the image of one file, Python's \<^verbatim>\<open>float\<close> of a string (\<open>None\<close> where
  it raises), the interpolation of scipy and the marching cubes of scikit-image at the
  level 0.5, which returns vertices and faces.
\<close>

record env =
  dicom_dir :: dicom_dir
  series_ids :: "exn + string list"
  series_file_names :: "string \<Rightarrow> exn + string list"
  execute :: "string list \<Rightarrow> exn + sitk_image"
  read_image :: "string \<Rightarrow> exn + sitk_image"
  py_float :: "string \<Rightarrow> f64 option"
  zoom :: "16 word ndarray \<Rightarrow> f64 list \<Rightarrow> exn + 16 word ndarray"
  marching_cubes :: "npy \<Rightarrow> exn + (f64 list list \<times> nat list list)"

definition DICOM_PATH :: string where
  "DICOM_PATH = ''SlicerRtData/eclipse-8.1.20-phantom-prostate/Original/CT''"

text \<open>\<^verbatim>\<open>str.lower\<close> and \<^verbatim>\<open>str.endswith\<close>, on ASCII.\<close>

definition lower_char :: "char \<Rightarrow> char" where
  "lower_char c =
     (let n = of_char c :: nat in if 65 \<le> n \<and> n \<le> 90 then char_of (n + 32) else c)"

definition endswith :: "string \<Rightarrow> string \<Rightarrow> bool" where
  "endswith s suffix =
     (length suffix \<le> length s \<and> drop (length s - length suffix) s = suffix)"

text \<open>A candidate has the extension of a DICOM file, in any case, or no dot in its name.\<close>

definition is_candidate :: "string \<Rightarrow> bool" where
  "is_candidate file =
     (endswith (map lower_char file) ''.dcm'' \<or> endswith (map lower_char file) ''.dicom''
      \<or> CHR ''.'' \<notin> set file)"

definition candidates :: "(string \<times> bool) list \<Rightarrow> string list" where
  "candidates entries =
     map (\<lambda>(file, is_file). path_join DICOM_PATH file)
       (filter (\<lambda>(file, is_file). is_file \<and> is_candidate file) entries)"

text \<open>\<^verbatim>\<open>str.split(sep)\<close> for a separator of one character.\<close>

fun split_on :: "char \<Rightarrow> string \<Rightarrow> string list" where
  "split_on c [] = [[]]"
| "split_on c (x # xs) =
     (if x = c then [] # split_on c xs
      else (case split_on c xs of [] \<Rightarrow> [[x]] | p # ps \<Rightarrow> (x # p) # ps))"

definition to_float :: "env \<Rightarrow> string \<Rightarrow> exn + f64" where
  "to_float E s = (case py_float E s of None \<Rightarrow> Inl ValueError | Some v \<Rightarrow> Inr v)"

text \<open>
  The position of a slice: the third component of the image position, else the slice
  location, else the instance number, else 0. The separator of the components is the
  backslash.
\<close>

definition slice_position :: "env \<Rightarrow> sitk_image \<Rightarrow> exn + f64" where
  "slice_position E slice_img =
     (case map_of (metadata slice_img) ''0020|0032'' of
        Some v \<Rightarrow>
          (let parts = split_on (CHR 0x5C) v in
           if length parts \<le> 2 then Inl IndexError else to_float E (parts ! 2))
      | None \<Rightarrow>
     (case map_of (metadata slice_img) ''0020|1041'' of
        Some v \<Rightarrow> to_float E v
      | None \<Rightarrow>
     (case map_of (metadata slice_img) ''0020|0013'' of
        Some v \<Rightarrow> to_float E v
      | None \<Rightarrow> Inr (Fin 0))))"

text \<open>The loop over the candidates: a file that raises is logged and left out.\<close>

definition read_slices :: "env \<Rightarrow> string list \<Rightarrow> (f64 \<times> string \<times> sitk_image) list" where
  "read_slices E dicom_files =
     concat (map (\<lambda>file_path.
       case read_image E file_path of
         Inl _ \<Rightarrow> []
       | Inr slice_img \<Rightarrow>
           (case slice_position E slice_img of
              Inl _ \<Rightarrow> []
            | Inr position \<Rightarrow> [(position, file_path, slice_img)])) dicom_files)"

text \<open>
  \<^verbatim>\<open>slices_data.sort(key=lambda x: x[0])\<close>: a stable sort with the comparison \<open><\<close> of
  the positions; this is the order Python's sort gives when no position is NaN.
\<close>

fun insert_slice :: "(f64 \<times> 'a) \<Rightarrow> (f64 \<times> 'a) list \<Rightarrow> (f64 \<times> 'a) list" where
  "insert_slice s [] = [s]"
| "insert_slice s (t # ts) =
     (if f64_gt (fst t) (fst s) then s # t # ts else t # insert_slice s ts)"

definition sort_slices :: "(f64 \<times> 'a) list \<Rightarrow> (f64 \<times> 'a) list" where
  "sort_slices xs = foldl (\<lambda>sorted s. insert_slice s sorted) [] xs"

text \<open>
  The statements of the inner \<^verbatim>\<open>try\<close> of \<^verbatim>\<open>process_dicom\<close> that look for the image:
  the image of the first series, or of the sorted slices, or the first of the sorted
  slices when they cannot be joined. \<open>Inl e\<close>: one of the statements raised \<open>e\<close>, which
  the handler of the inner \<^verbatim>\<open>try\<close> will catch; \<open>Inr None\<close>: no slice could be read, the
  body comes to the \<^verbatim>\<open>return generate_synthetic_volume()\<close> that stands inside the
  inner \<^verbatim>\<open>try\<close>; \<open>Inr (Some image)\<close>: the body ends with this image.
\<close>

definition find_image :: "env \<Rightarrow> string list \<Rightarrow> exn + sitk_image option" where
  "find_image E dicom_files =
     (case series_ids E of
        Inl e \<Rightarrow> Inl e
      | Inr ids \<Rightarrow>
          if ids \<noteq> [] then
            (case series_file_names E (hd ids) of
               Inl e \<Rightarrow> Inl e
             | Inr names \<Rightarrow>
                 (case execute E names of Inl e \<Rightarrow> Inl e | Inr img \<Rightarrow> Inr (Some img)))
          else
            (let slices_data = read_slices E dicom_files in
             if slices_data = [] then Inr None
             else
               (let sorted = sort_slices slices_data in
                case execute E (map (\<lambda>x. fst (snd x)) sorted) of
                  Inl _ \<Rightarrow> Inr (Some (snd (snd (hd sorted))))
                | Inr img \<Rightarrow> Inr (Some img))))"

text \<open>
  The inner \<^verbatim>\<open>try\<close> with its handler. It either returns from \<^verbatim>\<open>process_dicom\<close> with a
  value (\<open>Inl\<close>) or goes on with the image (\<open>Inr\<close>). The synthesis for the case that no
  slice could be read runs inside the \<^verbatim>\<open>try\<close>: when it raises, the handler of the
  inner \<^verbatim>\<open>try\<close> catches the exception and runs the synthesis again, as it does when
  the reader raised. An exception of the handler's synthesis leaves the inner \<^verbatim>\<open>try\<close>.
\<close>

definition read_series :: "env \<Rightarrow> string list \<Rightarrow> (bool + sitk_image) py" where
  "read_series E dicom_files =
     py_try
       (case find_image E dicom_files of
          Inl reader_error \<Rightarrow> py_raise reader_error
        | Inr None \<Rightarrow> py_bind generate_synthetic_volume (\<lambda>b. py_return (Inl b))
        | Inr (Some img) \<Rightarrow> py_return (Inr img))
       (\<lambda>reader_error. py_bind generate_synthetic_volume (\<lambda>b. py_return (Inl b)))"

text \<open>
  From the image to the saved volume: the array and the reversed spacing, the conversion
  (two arrays of the size of the volume are allocated, the int16 copy and the boolean
  mask of the sentinel), the resampling to the default spacing, the two saves.
\<close>

definition store_image :: "env \<Rightarrow> sitk_image \<Rightarrow> bool py" where
  "store_image E img =
     (let image_array = pixels img; spacing = rev (spacing_xyz img) in
      py_bind np_alloc (\<lambda>_.
      py_bind np_alloc (\<lambda>_.
      py_bind (py_lift (resample (zoom E) (convert_to_hu image_array) spacing default_new_spacing))
        (\<lambda>(resampled_volume, new_spacing).
      py_bind (np_save VOLUME_PATH (I16 resampled_volume)) (\<lambda>_.
      py_bind (np_save SPACING_PATH (F64 \<lparr>shape = [length new_spacing], data = new_spacing\<rparr>)) (\<lambda>_.
      py_return True))))))"

text \<open>The body of the outer \<^verbatim>\<open>try\<close> of \<^verbatim>\<open>process_dicom\<close>.\<close>

definition decode_or_synthesize :: "env \<Rightarrow> bool py" where
  "decode_or_synthesize E =
     (case dicom_dir E of
        Missing \<Rightarrow> generate_synthetic_volume
      | NotDir \<Rightarrow> py_raise NotADirectoryError
      | Listing entries \<Rightarrow>
          if length entries = 0 then generate_synthetic_volume
          else
            (let dicom_files = candidates entries in
             if dicom_files = [] then generate_synthetic_volume
             else
               py_bind (read_series E dicom_files) (\<lambda>found.
                 case found of
                   Inl b \<Rightarrow> py_return b
                 | Inr img \<Rightarrow> store_image E img)))"

text \<open>
  \<^verbatim>\<open>process_dicom\<close>: every exception of the body, also one that
  \<^verbatim>\<open>generate_synthetic_volume\<close> raised inside it or in the handler of the inner
  \<^verbatim>\<open>try\<close>, is caught by the outer handler, which returns
  \<^verbatim>\<open>generate_synthetic_volume()\<close>.
\<close>

definition process_dicom :: "env \<Rightarrow> bool py" where
  "process_dicom E = py_try (decode_or_synthesize E) (\<lambda>e. generate_synthetic_volume)"

section \<open>The mask segmenter\<close>

text \<open>
  \<^verbatim>\<open>volume > threshold\<close> for an integer threshold, element by element. For a float64
  array the threshold is converted to float64; for an integer array the comparison is
  the one of the integers.
\<close>

fun npy_gt :: "npy \<Rightarrow> int \<Rightarrow> bool ndarray" where
  "npy_gt (F64 a) t = \<lparr>shape = shape a, data = map (\<lambda>x. f64_gt x (Fin (of_int t))) (data a)\<rparr>"
| "npy_gt (I16 a) t = \<lparr>shape = shape a, data = map (\<lambda>x. t < sint x) (data a)\<rparr>"
| "npy_gt (U8 a) t = \<lparr>shape = shape a, data = map (\<lambda>x. t < uint x) (data a)\<rparr>"

text \<open>\<^verbatim>\<open>.astype(np.uint8)\<close> of a boolean array: True is 1 and False is 0.\<close>

definition astype_uint8 :: "bool ndarray \<Rightarrow> 8 word ndarray" where
  "astype_uint8 b = \<lparr>shape = shape b, data = map (\<lambda>c. if c then 1 else 0) (data b)\<rparr>"

definition threshold :: int where
  "threshold = 200"

text \<open>
  \<^verbatim>\<open>run_segmentation\<close>: load the volume, threshold it, save the mask. The handler of its
  \<^verbatim>\<open>try\<close> logs and raises the exception again.
\<close>

definition run_segmentation :: "world \<Rightarrow> (exn + bool) \<times> world" where
  "run_segmentation w =
     (case np_load VOLUME_PATH w of
        Inl e \<Rightarrow> (Inl e, w)
      | Inr volume \<Rightarrow>
          (let segmented_volume = astype_uint8 (npy_gt volume threshold) in
           case np_save SEGMENTED_VOLUME_PATH (U8 segmented_volume) w of
             (Inl e, w') \<Rightarrow> (Inl e, w')
           | (Inr _, w') \<Rightarrow> (Inr True, w')))"

section \<open>The surface extractor and the mesh serializer\<close>

text \<open>\<^verbatim>\<open>volume.transpose(2, 1, 0)\<close>: only an array of three dimensions has these axes.\<close>

definition transpose_210 :: "'a ndarray \<Rightarrow> exn + 'a ndarray" where
  "transpose_210 v =
     (case shape v of
        [a, b, c] \<Rightarrow>
          Inr \<lparr>shape = [c, b, a],
               data = concat (map (\<lambda>k. concat (map (\<lambda>j.
                        map (\<lambda>i. data v ! ((i * b + j) * c + k)) [0..<a]) [0..<b])) [0..<c])\<rparr>
      | _ \<Rightarrow> Inl ValueError)"

fun npy_transpose :: "npy \<Rightarrow> exn + npy" where
  "npy_transpose (F64 v) = map_sum id F64 (transpose_210 v)"
| "npy_transpose (I16 v) = map_sum id I16 (transpose_210 v)"
| "npy_transpose (U8 v) = map_sum id U8 (transpose_210 v)"

text \<open>\<^verbatim>\<open>verts[f[j]]\<close> for \<open>j\<close> from 0 to 2; an index out of range raises.\<close>

definition face_triangle :: "f64 list list \<Rightarrow> nat list \<Rightarrow> exn + triangle" where
  "face_triangle verts f =
     (if length f < 3 \<or> (\<exists>j \<in> {0, 1, 2}. length verts \<le> f ! j) then Inl IndexError
      else Inr [verts ! (f ! 0), verts ! (f ! 1), verts ! (f ! 2)])"

text \<open>The loop over the faces; the mesh has one triangle for each face.\<close>

fun build_mesh :: "f64 list list \<Rightarrow> nat list list \<Rightarrow> exn + triangle list" where
  "build_mesh verts [] = Inr []"
| "build_mesh verts (f # faces) =
     (case face_triangle verts f of
        Inl e \<Rightarrow> Inl e
      | Inr t \<Rightarrow> (case build_mesh verts faces of Inl e \<Rightarrow> Inl e | Inr ts \<Rightarrow> Inr (t # ts)))"

text \<open>
  \<^verbatim>\<open>create_3d_model\<close>: the mask must exist and load, the marching cubes run on the
  transposed mask, the mesh is built and written at its path. The handler of its
  \<^verbatim>\<open>try\<close> logs and raises the exception again.
\<close>

definition create_3d_model :: "env \<Rightarrow> bool py" where
  "create_3d_model E =
     (\<lambda>w. (if files w SEGMENTED_VOLUME_PATH = None then py_raise FileNotFoundError
           else
             py_bind (py_lift (np_load SEGMENTED_VOLUME_PATH w)) (\<lambda>volume.
             py_bind (py_lift (npy_transpose volume)) (\<lambda>volume.
             py_bind (py_lift (marching_cubes E volume)) (\<lambda>(verts, faces).
             py_bind (py_lift (build_mesh verts faces)) (\<lambda>stl_mesh.
             py_bind (write_file STL_MODEL_PATH (StlFile stl_mesh)) (\<lambda>_.
             py_return True)))))) w)"

section \<open>The pipeline\<close>

text \<open>
  The route \<^verbatim>\<open>/api/process\<close> runs the three stages in order and answers with a status:
  200 when all three returned, 500 with the message of the exception otherwise.
\<close>

datatype response = Success | Failure exn

definition status_code :: "response \<Rightarrow> nat" where
  "status_code r = (case r of Success \<Rightarrow> 200 | Failure _ \<Rightarrow> 500)"

definition start_processing :: "env \<Rightarrow> world \<Rightarrow> response \<times> world" where
  "start_processing E w =
     (case py_bind (process_dicom E) (\<lambda>_.
           py_bind run_segmentation (\<lambda>_.
           create_3d_model E)) w of
        (Inl e, w') \<Rightarrow> (Failure e, w')
      | (Inr _, w') \<Rightarrow> (Success, w'))"

section \<open>Conditions on the environment and example inputs\<close>

text \<open>An environment in which no allocation and no write that is still to come fails.\<close>

definition faultless :: "world \<Rightarrow> bool" where
  "faultless w = (list_all id (allocs w) \<and> list_all (\<lambda>x. x = WriteOk) (writes w))"

text \<open>
  The input directory is missing, or empty, or holds no candidate file, or no image can
  be made of its candidates: the ways in which the body of \<^verbatim>\<open>process_dicom\<close> comes to
  \<^verbatim>\<open>return generate_synthetic_volume()\<close>.
\<close>

definition no_decodable_input :: "env \<Rightarrow> bool" where
  "no_decodable_input E =
     (case dicom_dir E of
        Missing \<Rightarrow> True
      | NotDir \<Rightarrow> False
      | Listing entries \<Rightarrow>
          entries = [] \<or> candidates entries = []
          \<or> (case find_image E (candidates entries) of
                Inr (Some img) \<Rightarrow> False
              | _ \<Rightarrow> True))"

text \<open>The decoding path runs to its end: an image is found, converted, resampled and saved.\<close>

definition decodes :: "env \<Rightarrow> world \<Rightarrow> bool" where
  "decodes E w =
     (case dicom_dir E of
        Listing entries \<Rightarrow>
          entries \<noteq> [] \<and> candidates entries \<noteq> []
          \<and> (case find_image E (candidates entries) of
                Inr (Some img) \<Rightarrow> fst (store_image E img w) = Inr True
              | _ \<Rightarrow> False)
      | _ \<Rightarrow> False)"

text \<open>A computation that leaves the draw of the noise alone and brings no fault.\<close>

definition steady :: "'a py \<Rightarrow> bool" where
  "steady m = (\<forall>w r w'. m w = (r, w') \<longrightarrow> noise w' = noise w \<and> (faultless w \<longrightarrow> faultless w'))"


definition seg_volume :: npy where
  "seg_volume = F64 \<lparr>shape = [1, 1, 3], data = [Fin 199, Fin 200, Fin 201]\<rparr>"

definition seg_world :: world where
  "seg_world = \<lparr>files = [VOLUME_PATH \<mapsto> NpyFile seg_volume], writes = [], allocs = [], noise = (\<lambda>_. Fin 0)\<rparr>"


text \<open>
  The interpolation of scipy as far as an output without elements goes. The factors must
  be as many as the axes; the shape of the output is \<^verbatim>\<open>int(round(count * factor))\<close> on
  each axis, which raises for a product that is not finite; the output is allocated with
  \<^verbatim>\<open>numpy.zeros\<close>, which raises \<^verbatim>\<open>ValueError\<close> for a negative dimension and accepts
  a dimension of 0; the elements of the output are then computed one by one, none for an
  output without elements. The values of an output with elements are not modelled: the
  examples do not reach them.
\<close>

definition output_dim :: "nat \<Rightarrow> f64 \<Rightarrow> exn + int" where
  "output_dim c f =
     (case f64_mul (f64_of_nat c) f of
        Fin x \<Rightarrow> Inr (round_half_even x)
      | NaN \<Rightarrow> Inl ValueError
      | _ \<Rightarrow> Inl OverflowError)"

fun output_shape :: "nat list \<Rightarrow> f64 list \<Rightarrow> exn + int list" where
  "output_shape (c # cs) (f # fs) =
     (case output_dim c f of
        Inl e \<Rightarrow> Inl e
      | Inr d \<Rightarrow> (case output_shape cs fs of Inl e \<Rightarrow> Inl e | Inr ds \<Rightarrow> Inr (d # ds)))"
| "output_shape _ _ = Inr []"

definition empty_zoom :: "16 word ndarray \<Rightarrow> f64 list \<Rightarrow> exn + 16 word ndarray" where
  "empty_zoom v factor =
     (if length factor \<noteq> length (shape v) then Inl RuntimeError
      else
        (case output_shape (shape v) factor of
           Inl e \<Rightarrow> Inl e
         | Inr dims \<Rightarrow>
             if list_ex (\<lambda>d. d < 0) dims then Inl ValueError
             else if prod_list dims = 0 then Inr \<lparr>shape = map nat dims, data = []\<rparr>
             else Inl RuntimeError))"



text \<open>
  An environment without input directory, and one with a single readable slice; the
  libraries that are not reached raise.
\<close>

definition env_missing :: env where
  "env_missing =
     \<lparr>dicom_dir = Missing, series_ids = Inr [], series_file_names = (\<lambda>_. Inr []),
      execute = (\<lambda>_. Inl RuntimeError), read_image = (\<lambda>_. Inl RuntimeError),
      py_float = (\<lambda>_. None), zoom = empty_zoom, marching_cubes = (\<lambda>_. Inl RuntimeError)\<rparr>"

definition one_slice :: sitk_image where
  "one_slice =
     \<lparr>pixels = \<lparr>shape = [1, 1, 1], data = [40]\<rparr>, spacing_xyz = [Fin 1, Fin 1, Fin 1],
      metadata = []\<rparr>"

definition env_one_slice :: env where
  "env_one_slice =
     env_missing\<lparr>dicom_dir := Listing [(''slice.dcm'', True)], series_ids := Inr [''1.2.3''],
       series_file_names := (\<lambda>_. Inr [path_join DICOM_PATH ''slice.dcm'']),
       execute := (\<lambda>_. Inr one_slice)\<rparr>"

text \<open>A directory with one candidate that cannot be read, and no series.\<close>

definition env_unreadable :: env where
  "env_unreadable = env_missing\<lparr>dicom_dir := Listing [(''slice.dcm'', True)]\<rparr>"

definition empty_world :: world where
  "empty_world = \<lparr>files = Map.empty, writes = [], allocs = [], noise = (\<lambda>_. Fin 0)\<rparr>"













section \<open>Properties of the float64 rounding\<close>

text \<open>
  The rounding moves a value by at most half a unit in the last place: inside the normal
  range the relative error is at most \<open>1 / 2 ^ 53\<close>. Integers below \<open>2 ^ 53\<close> are float64
  values.
\<close>

lemma round_half_even_err: "\<bar>of_int (round_half_even y) - y\<bar> \<le> 1 / 2"
proof -
  have "of_int \<lfloor>y\<rfloor> \<le> y" "y < of_int \<lfloor>y\<rfloor> + 1"
    by linarith+
  then show ?thesis
    by (auto simp: round_half_even_def Let_def abs_le_iff)
qed

lemma round_half_even_int: "round_half_even (of_int k) = k"
  by (simp add: round_half_even_def)

lemma ilog2_lower:
  assumes "0 < x"
  shows "2 powi (ilog2 x) \<le> x"
proof (cases "1 \<le> x")
  case True
  define n where "n = nat \<lfloor>x\<rfloor>"
  have n: "0 < n" "of_nat n \<le> x"
    using True by (auto simp: n_def le_floor_iff)
  have fl_pos: "0 < floorlog 2 n"
    using n(1) by (simp add: floorlog_def)
  have "2 ^ (floorlog 2 n - 1) \<le> n"
    using floorlog_bounds [of n 2] n(1) by simp
  then have "(2::rat) ^ (floorlog 2 n - 1) \<le> of_nat n"
    by (metis of_nat_le_iff of_nat_numeral of_nat_power)
  moreover have "ilog2 x = int (floorlog 2 n - 1)"
    using True fl_pos by (simp add: ilog2_def n_def)
  ultimately have "2 powi (ilog2 x) \<le> rat_of_nat n"
    by (simp only: power_int_of_nat)
  with n(2) show ?thesis
    by linarith
next
  case False
  define m where "m = nat (\<lceil>1 / x\<rceil> - 1)"
  define k where "k = floorlog 2 m"
  have "1 < 1 / x"
    using False assms by simp
  then have "1 < \<lceil>1 / x\<rceil>"
    by (simp only: less_ceiling_iff of_int_1)
  then have c: "2 \<le> \<lceil>1 / x\<rceil>"
    by linarith
  then have "0 < \<lceil>1 / x\<rceil> - 1"
    by linarith
  then have m: "0 < m" "int m = \<lceil>1 / x\<rceil> - 1"
    unfolding m_def by (simp_all only: zero_less_nat_eq int_nat_eq if_P less_imp_le)
  have "m < 2 ^ k"
    using floorlog_bounds [of m 2] m(1) by (simp add: k_def)
  then have "int m < 2 ^ k"
    by (metis of_nat_less_iff of_nat_numeral of_nat_power)
  then have "\<lceil>1 / x\<rceil> \<le> 2 ^ k"
    using m(2) by linarith
  then have "1 / x \<le> 2 ^ k"
    by (simp add: ceiling_le_iff)
  then have "1 / 2 ^ k \<le> x"
    using assms by (simp add: field_simps)
  moreover have "ilog2 x = - int k"
    using False by (simp add: ilog2_def k_def m_def)
  ultimately show ?thesis
    by (simp add: power_int_minus_divide)
qed

lemma ilog2_upper:
  assumes "0 < x"
  shows "x < 2 powi (ilog2 x + 1)"
proof (cases "1 \<le> x")
  case True
  define n where "n = nat \<lfloor>x\<rfloor>"
  have "0 \<le> \<lfloor>x\<rfloor>"
    using True by simp
  then have "rat_of_nat n = of_int \<lfloor>x\<rfloor>"
    by (simp add: n_def)
  moreover have "x < of_int \<lfloor>x\<rfloor> + 1"
    by linarith
  moreover have "0 < n"
    using True by (simp add: n_def le_floor_iff)
  ultimately have n: "0 < n" "x < of_nat n + 1"
    by simp_all
  have "n < 2 ^ floorlog 2 n"
    using floorlog_bounds [of n 2] n(1) by simp
  then have "n + 1 \<le> 2 ^ floorlog 2 n"
    by simp
  then have "of_nat (n + 1) \<le> (2::rat) ^ floorlog 2 n"
    by (metis of_nat_le_iff of_nat_numeral of_nat_power)
  moreover have "ilog2 x + 1 = int (floorlog 2 n)"
    using True by (simp add: ilog2_def n_def)
  ultimately have "rat_of_nat (n + 1) \<le> 2 powi (ilog2 x + 1)"
    by (simp only: power_int_of_nat)
  with n(2) show ?thesis
    by simp
next
  case False
  define m where "m = nat (\<lceil>1 / x\<rceil> - 1)"
  define k where "k = floorlog 2 m"
  have "1 < 1 / x"
    using False assms by simp
  then have "1 < \<lceil>1 / x\<rceil>"
    by (simp only: less_ceiling_iff of_int_1)
  then have c: "2 \<le> \<lceil>1 / x\<rceil>"
    by linarith
  then have "0 < \<lceil>1 / x\<rceil> - 1"
    by linarith
  then have m: "0 < m" "int m = \<lceil>1 / x\<rceil> - 1"
    unfolding m_def by (simp_all only: zero_less_nat_eq int_nat_eq if_P less_imp_le)
  have kpos: "0 < k"
    using m(1) by (simp add: k_def floorlog_def)
  have "2 ^ (k - 1) \<le> m"
    using floorlog_bounds [of m 2] m(1) by (simp add: k_def)
  then have "(2::int) ^ (k - 1) \<le> int m"
    by (metis of_nat_le_iff of_nat_numeral of_nat_power)
  then have "2 ^ (k - 1) < \<lceil>1 / x\<rceil>"
    using m(2) by linarith
  then have "2 ^ (k - 1) < 1 / x"
    by (simp add: less_ceiling_iff)
  then have "x < 1 / 2 ^ (k - 1)"
    using assms by (simp add: field_simps)
  moreover have "ilog2 x + 1 = - int (k - 1)"
    using False kpos by (simp add: ilog2_def k_def m_def)
  ultimately show ?thesis
    by (simp add: power_int_minus_divide)
qed


lemma ilog2_nonneg: "1 \<le> x \<Longrightarrow> 0 \<le> ilog2 x"
proof -
  assume a: "1 \<le> x"
  then have "0 < nat \<lfloor>x\<rfloor>"
    by (simp add: le_floor_iff)
  then have "0 < floorlog 2 (nat \<lfloor>x\<rfloor>)"
    by (simp add: floorlog_def)
  with a show ?thesis
    by (simp add: ilog2_def)
qed

lemma fl_err:
  assumes lo: "2 powi (- 1022) \<le> \<bar>x\<bar>" and hi: "\<bar>x\<bar> < 2 ^ 1023"
  shows "\<exists>y. fl x = Fin y \<and> \<bar>y - x\<bar> \<le> \<bar>x\<bar> / 2 ^ 53"
proof -
  define e where "e = max (ilog2 \<bar>x\<bar>) (- 1022)"
  define q :: rat where "q = 2 powi (e - 52)"
  define y where "y = of_int (round_half_even (x / q)) * q"
  have "(0::rat) < 2 powi (- 1022)"
    by (simp add: power_int_def)
  with lo have xpos: "0 < \<bar>x\<bar>"
    by linarith
  then have x0: "x \<noteq> 0"
    by simp
  have qpos: "0 < q"
    by (simp add: q_def zero_less_power_int)
  have ele: "2 powi e \<le> \<bar>x\<bar>"
  proof (cases "- 1022 \<le> ilog2 \<bar>x\<bar>")
    case True
    then have "e = ilog2 \<bar>x\<bar>"
      by (simp add: e_def)
    then show ?thesis
      using ilog2_lower [OF xpos] by simp
  next
    case False
    then have "e = - 1022"
      by (simp add: e_def)
    then show ?thesis
      using lo by simp
  qed
  have q2: "q = 2 powi e / 2 ^ 52"
    by (simp add: q_def power_int_diff)
  have "y - x = q * (of_int (round_half_even (x / q)) - x / q)"
    using qpos by (simp add: y_def field_simps)
  then have "\<bar>y - x\<bar> = q * \<bar>of_int (round_half_even (x / q)) - x / q\<bar>"
    using qpos by (simp add: abs_mult)
  also have "\<dots> \<le> q * (1 / 2)"
    using qpos round_half_even_err [of "x / q"] by (intro mult_left_mono) simp_all
  also have "\<dots> = 2 powi e / 2 ^ 53"
    by (simp add: q2)
  also have "\<dots> \<le> \<bar>x\<bar> / 2 ^ 53"
    using ele by (simp add: divide_right_mono)
  finally have err: "\<bar>y - x\<bar> \<le> \<bar>x\<bar> / 2 ^ 53" .
  have "\<bar>x\<bar> / 2 ^ 53 \<le> \<bar>x\<bar>"
    using xpos by (simp add: field_simps)
  with err have "\<bar>y\<bar> \<le> 2 * \<bar>x\<bar>"
    by linarith
  with hi have "\<bar>y\<bar> < 2 ^ 1024"
    by simp
  then have "fl x = Fin y"
    using x0 by (simp add: fl_def Let_def e_def [symmetric] q_def [symmetric] y_def [symmetric])
  with err show ?thesis
    by blast
qed

lemma fl_of_int:
  assumes "\<bar>k\<bar> < 2 ^ 53"
  shows "fl (of_int k) = Fin (of_int k)"
proof (cases "k = 0")
  case True
  then show ?thesis
    by (simp add: fl_def)
next
  case False
  define x :: rat where "x = of_int k"
  define e where "e = max (ilog2 \<bar>x\<bar>) (- 1022)"
  define q :: rat where "q = 2 powi (e - 52)"
  have x0: "x \<noteq> 0" and x1: "1 \<le> \<bar>x\<bar>"
    using False by (simp_all add: x_def flip: of_int_abs)
  have xhi: "\<bar>x\<bar> < 2 ^ 53"
    using assms unfolding x_def
    by (metis of_int_abs of_int_less_iff of_int_numeral of_int_power)
  have e_eq: "e = ilog2 \<bar>x\<bar>" and e0: "0 \<le> e"
    using ilog2_nonneg [OF x1] by (simp_all add: e_def)
  have "2 powi e \<le> \<bar>x\<bar>"
    using ilog2_lower [of "\<bar>x\<bar>"] x1 by (simp add: e_eq)
  with xhi have "(2::rat) powi e < 2 powi 53"
    by simp
  then have "e < 53"
    by (rule power_int_le_imp_less_exp [rotated]) simp_all
  then have e52: "e \<le> 52"
    by simp
  define d where "d = nat (52 - e)"
  have "e - 52 = - int d"
    using e52 by (simp add: d_def)
  then have q_eq: "q = 1 / 2 ^ d"
    by (simp add: q_def power_int_minus_divide)
  have "x / q = of_int (k * 2 ^ d)"
    by (simp add: q_eq x_def)
  then have "round_half_even (x / q) = k * 2 ^ d"
    by (simp only: round_half_even_int)
  then have y: "of_int (round_half_even (x / q)) * q = x"
    by (simp add: q_eq x_def)
  have "\<bar>x\<bar> < 2 ^ 1024"
    using xhi by (rule less_trans) simp
  then have "fl x = Fin x"
    using x0 by (simp add: fl_def Let_def e_def [symmetric] q_def [symmetric] y)
  then show ?thesis
    by (simp add: x_def)
qed

lemma ilog2_unique:
  assumes "0 < x" and lo: "2 powi e \<le> x" and hi: "x < 2 powi (e + 1)"
  shows "ilog2 x = e"
proof -
  have "(2::rat) powi (ilog2 x) < 2 powi (e + 1)"
    using ilog2_lower [OF assms(1)] hi by linarith
  then have a: "ilog2 x < e + 1"
    by (metis less_le_not_le linorder_le_less_linear one_le_numeral power_int_increasing)
  have "(2::rat) powi e < 2 powi (ilog2 x + 1)"
    using ilog2_upper [OF assms(1)] lo by linarith
  then have b: "e < ilog2 x + 1"
    by (metis less_le_not_le linorder_le_less_linear one_le_numeral power_int_increasing)
  from a b show ?thesis
    by linarith
qed

lemma fl_eval:
  assumes lo: "2 powi e \<le> \<bar>x\<bar>" and hi: "\<bar>x\<bar> < 2 powi (e + 1)"
    and e: "- 1022 \<le> e" "e < 1023"
  shows "fl x = Fin (of_int (round_half_even (x / 2 powi (e - 52))) * 2 powi (e - 52))"
proof -
  have "(0::rat) < 2 powi e"
    by (simp add: zero_less_power_int)
  with lo have xpos: "0 < \<bar>x\<bar>"
    by linarith
  have il: "ilog2 \<bar>x\<bar> = e"
    by (rule ilog2_unique [OF xpos lo hi])
  have "(2::rat) powi (- 1022) \<le> 2 powi e"
    using e(1) by (intro power_int_increasing) simp_all
  with lo have lo': "2 powi (- 1022) \<le> \<bar>x\<bar>"
    by linarith
  have "(2::rat) powi (e + 1) \<le> 2 powi 1023"
    using e(2) by (intro power_int_increasing) simp_all
  with hi have hi': "\<bar>x\<bar> < 2 ^ 1023"
    by simp
  obtain y where y: "fl x = Fin y"
    using fl_err [OF lo' hi'] by blast
  have "max (ilog2 \<bar>x\<bar>) (- 1022) = e"
    using il e(1) by simp
  then have "fl x = Fin (of_int (round_half_even (x / 2 powi (e - 52))) * 2 powi (e - 52))
      \<or> fl x = PInf \<or> fl x = MInf"
    using xpos by (auto simp: fl_def Let_def)
  with y show ?thesis
    by auto
qed

lemma fl_pos:
  assumes lo: "2 powi (- 1022) \<le> x" and hi: "x < 2 ^ 1023"
  shows "\<exists>y. fl x = Fin y \<and> \<bar>y - x\<bar> \<le> x / 2 ^ 53 \<and> x / 2 \<le> y \<and> y \<le> 2 * x"
proof -
  have "(0::rat) < 2 powi (- 1022)"
    by (simp add: zero_less_power_int)
  with lo have xpos: "0 < x"
    by linarith
  then have ax: "\<bar>x\<bar> = x"
    by simp
  obtain y where y: "fl x = Fin y" "\<bar>y - x\<bar> \<le> x / 2 ^ 53"
    using fl_err [of x] lo hi ax by auto
  have "x / 2 ^ 53 \<le> x / 2"
    using xpos by (simp add: field_simps)
  with y(2) have "x / 2 \<le> y" "y \<le> 2 * x"
    using xpos by (simp_all only: abs_le_iff) linarith+
  with y show ?thesis
    by blast
qed

lemma floor_rat_numeral:
  "\<lfloor>(numeral a :: rat) / numeral b\<rfloor> = numeral a div numeral b"
  using floor_divide_of_int_eq [of "numeral a" "numeral b", where ?'a = rat] by simp

lemma fl_examples:
  "fl 1 = Fin 1" "fl 2 = Fin 2" "fl 3 = Fin 3" "fl 10 = Fin 10"
  using fl_of_int [of 1] fl_of_int [of 2] fl_of_int [of 3] fl_of_int [of 10] by simp_all

lemma fl_7_2: "fl (7 / 2) = Fin (7 / 2)"
  by (subst fl_eval [of 1]) (simp_all add: round_half_even_def Let_def floor_rat_numeral)

lemma fl_21_2: "fl (21 / 2) = Fin (21 / 2)"
  by (subst fl_eval [of 3]) (simp_all add: round_half_even_def Let_def floor_rat_numeral)

lemma fl_10_3: "fl (10 / 3) = Fin (7505999378950827 / 2251799813685248)"
  by (subst fl_eval [of 1]) (simp_all add: round_half_even_def Let_def floor_rat_numeral)

lemma fl_7_2_div_a:
  "fl (7881299347898368 / 7505999378950827) = Fin (4728779608739021 / 4503599627370496)"
  by (subst fl_eval [of 0]) (simp_all add: round_half_even_def Let_def floor_rat_numeral)

lemma fl_7_2_div_b:
  "fl (15762598695796736 / 4728779608739021) = Fin (3752999689475413 / 1125899906842624)"
  by (subst fl_eval [of 1]) (simp_all add: round_half_even_def Let_def floor_rat_numeral)


lemma rel_err_compose:
  fixes r sv p l u :: rat
  assumes r: "0 < r" and sv: "0 < sv" and u: "0 < u" "u \<le> 1 / 2"
    and p: "\<bar>p - sv / r\<bar> \<le> sv / r * u"
    and l: "\<bar>l - sv / p\<bar> \<le> sv / p * u"
  shows "\<bar>l - r\<bar> \<le> 4 * u * r"
proof -
  define a where "a = sv / r"
  define b where "b = sv / p"
  have a: "0 < a" and ar: "a * r = sv"
    using r sv by (simp_all add: a_def)
  have u1: "0 < 1 - u" "0 < 1 + u"
    using u by simp_all
  have p_lo: "a * (1 - u) \<le> p" and p_hi: "p \<le> a * (1 + u)"
    using p by (simp_all add: a_def [symmetric] abs_le_iff algebra_simps)
  have "0 < a * (1 - u)"
    using a u1 by simp
  with p_lo have ppos: "0 < p"
    by linarith
  have b: "0 < b" and bp: "b * p = sv"
    using ppos sv by (simp_all add: b_def)
  have l_lo: "b * (1 - u) \<le> l" and l_hi: "l \<le> b * (1 + u)"
    using l by (simp_all add: b_def [symmetric] abs_le_iff algebra_simps)
  have "b * (a * (1 - u)) \<le> b * p"
    using p_lo b by (intro mult_left_mono) simp_all
  then have "a * (b * (1 - u)) \<le> a * r"
    by (simp add: bp ar mult.left_commute)
  then have b_hi: "b * (1 - u) \<le> r"
    using a by simp
  have "b * p \<le> b * (a * (1 + u))"
    using p_hi b by (intro mult_left_mono) simp_all
  then have "a * r \<le> a * (b * (1 + u))"
    by (simp add: bp ar mult.left_commute)
  then have b_lo: "r \<le> b * (1 + u)"
    using a by simp
  have "l * (1 - u) \<le> (b * (1 + u)) * (1 - u)"
    using l_hi u1 by (intro mult_right_mono) simp_all
  also have "\<dots> = (b * (1 - u)) * (1 + u)"
    by (simp add: algebra_simps)
  also have "\<dots> \<le> r * (1 + u)"
    using b_hi u1 by (intro mult_right_mono) simp_all
  also have "\<dots> \<le> (r * (1 + 4 * u)) * (1 - u)"
  proof -
    have "0 \<le> r * (2 * u * (1 - 2 * u))"
      using r u by (intro mult_nonneg_nonneg) simp_all
    then show ?thesis
      by (simp add: algebra_simps)
  qed
  finally have upper: "l \<le> r * (1 + 4 * u)"
    using u1 by simp
  have "(r * (1 - 4 * u)) * (1 + u) \<le> r * (1 - u)"
  proof -
    have "0 \<le> r * (2 * u + 4 * u * u)"
      using r u by (intro mult_nonneg_nonneg add_nonneg_nonneg) simp_all
    then show ?thesis
      by (simp add: algebra_simps)
  qed
  also have "\<dots> \<le> (b * (1 + u)) * (1 - u)"
    using b_lo u1 by (intro mult_right_mono) simp_all
  also have "\<dots> = (b * (1 - u)) * (1 + u)"
    by (simp add: algebra_simps)
  also have "\<dots> \<le> l * (1 + u)"
    using l_lo u1 by (intro mult_right_mono) simp_all
  finally have lower: "r * (1 - 4 * u) \<le> l"
    using u1 by simp
  from upper lower show ?thesis
    by (simp add: abs_le_iff algebra_simps)
qed


lemma round_half_even_numeral [simp]:
  "round_half_even (numeral k) = numeral k" "round_half_even 1 = 1" "round_half_even 0 = 0"
  using round_half_even_int [of "numeral k"] round_half_even_int [of 1] round_half_even_int [of 0]
  by simp_all





section \<open>Properties of the resampler\<close>

lemma broadcast2_same:
  "length xs = length ys \<Longrightarrow> broadcast2 f xs ys = Inr (map2 f xs ys)"
  by (simp add: broadcast2_def)

lemma resample_factors_same_length:
  assumes "length s = length shp" "length t = length shp"
  shows "resample_factors shp s t =
    Inr (map (\<lambda>i. axis_factor (shp ! i) (s ! i) (t ! i)) [0..<length shp],
         map (\<lambda>i. f64_div (s ! i) (axis_factor (shp ! i) (s ! i) (t ! i))) [0..<length shp])"
  using assms
  by (auto simp: resample_factors_def broadcast2_same Let_def axis_factor_def
      intro!: nth_equalityI)

lemma fl_range:
  assumes lo: "1 / 2 ^ 1022 \<le> x" and hi: "x < 2 ^ 1023"
  shows "\<exists>y. fl x = Fin y \<and> \<bar>y - x\<bar> \<le> x / 2 ^ 53 \<and> x / 2 \<le> y \<and> y \<le> 2 * x"
  using fl_pos [of x] lo hi by (simp add: power_int_minus_divide)

lemma f64_of_nat_exact: "c < 2 ^ 53 \<Longrightarrow> f64_of_nat c = Fin (of_nat c)"
proof -
  assume "c < 2 ^ 53"
  then have "int c < 2 ^ 53"
    by (metis of_nat_less_iff of_nat_numeral of_nat_power)
  then have "\<bar>int c\<bar> < 2 ^ 53"
    by simp
  from fl_of_int [OF this] show ?thesis
    by (simp add: f64_of_nat_def)
qed

lemma quotient_bounds:
  fixes x y :: rat
  assumes "0 < lx" "lx \<le> x" "x \<le> hx" "0 < ly" "ly \<le> y" "y \<le> hy"
  shows "lx / hy \<le> x / y" "x / y \<le> hx / ly"
  using assms by (auto intro!: frac_le)

lemma axis_rounding:
  fixes sv :: rat and c :: nat and n :: int
  assumes sv: "1 / 2 ^ 256 \<le> sv" "sv \<le> 2 ^ 256"
    and c: "1 \<le> c" "c < 2 ^ 53"
    and n: "1 \<le> n" "n < 2 ^ 53"
  shows "\<exists>r p l. f64_div (Fin (of_int n)) (f64_of_nat c) = Fin r
           \<and> f64_div (Fin sv) (Fin r) = Fin p
           \<and> f64_div (Fin sv) (Fin p) = Fin l
           \<and> \<bar>r - of_int n / of_nat c\<bar> \<le> of_int n / of_nat c / 2 ^ 53
           \<and> \<bar>l - r\<bar> \<le> r / 2 ^ 51"
proof -
  define x1 :: rat where "x1 = of_int n / of_nat c"
  have "rat_of_nat 1 \<le> of_nat c" "rat_of_nat c \<le> of_nat (2 ^ 53)"
    using c by (simp_all only: of_nat_le_iff less_imp_le)
  then have cq: "(1::rat) \<le> of_nat c" "rat_of_nat c \<le> 2 ^ 53"
    by simp_all
  have "rat_of_int 1 \<le> of_int n" "rat_of_int n \<le> of_int (2 ^ 53)"
    using n by (simp_all only: of_int_le_iff less_imp_le)
  then have nq: "(1::rat) \<le> of_int n" "rat_of_int n \<le> 2 ^ 53"
    by simp_all
  have x1b: "1 / 2 ^ 53 \<le> x1" "x1 \<le> 2 ^ 53 / 1"
    unfolding x1_def using quotient_bounds [of 1 "of_int n" "2 ^ 53" 1 "of_nat c" "2 ^ 53"] cq nq
    by simp_all
  have "1 / 2 ^ 1022 \<le> x1" "x1 < 2 ^ 1023"
    using x1b by (simp_all add: order_trans [of "1 / 2 ^ 1022" "1 / 2 ^ 53" x1]
        le_less_trans [of x1 "2 ^ 53" "2 ^ 1023"])
  from fl_range [OF this] obtain r where r: "fl x1 = Fin r" "\<bar>r - x1\<bar> \<le> x1 / 2 ^ 53"
    "x1 / 2 \<le> r" "r \<le> 2 * x1"
    by blast
  have rb: "1 / 2 ^ 54 \<le> r" "r \<le> 2 ^ 54"
    using r(3,4) x1b by simp_all
  then have rpos: "0 < r"
    by (simp add: less_le_trans [of 0 "1 / 2 ^ 54" r])
  have d1: "f64_div (Fin (of_int n)) (f64_of_nat c) = Fin r"
    using c r(1) by (simp add: f64_of_nat_exact x1_def)
  define x2 where "x2 = sv / r"
  have x2b: "1 / 2 ^ 256 / 2 ^ 54 \<le> x2" "x2 \<le> 2 ^ 256 / (1 / 2 ^ 54)"
    unfolding x2_def using quotient_bounds [of "1 / 2 ^ 256" sv "2 ^ 256" "1 / 2 ^ 54" r "2 ^ 54"] sv rb
    by simp_all
  have "1 / 2 ^ 1022 \<le> x2" "x2 < 2 ^ 1023"
    using x2b by (simp_all add: order_trans [of "1 / 2 ^ 1022" "1 / 2 ^ 256 / 2 ^ 54" x2]
        le_less_trans [of x2 "2 ^ 256 / (1 / 2 ^ 54)" "2 ^ 1023"])
  from fl_range [OF this] obtain p where p: "fl x2 = Fin p" "\<bar>p - x2\<bar> \<le> x2 / 2 ^ 53"
    "x2 / 2 \<le> p" "p \<le> 2 * x2"
    by blast
  have pb: "1 / 2 ^ 311 \<le> p" "p \<le> 2 ^ 311"
    using p(3,4) x2b by simp_all
  then have ppos: "0 < p"
    by (simp add: less_le_trans [of 0 "1 / 2 ^ 311" p])
  have d2: "f64_div (Fin sv) (Fin r) = Fin p"
    using rpos p(1) by (simp add: x2_def)
  define x3 where "x3 = sv / p"
  have x3b: "1 / 2 ^ 256 / 2 ^ 311 \<le> x3" "x3 \<le> 2 ^ 256 / (1 / 2 ^ 311)"
    unfolding x3_def using quotient_bounds [of "1 / 2 ^ 256" sv "2 ^ 256" "1 / 2 ^ 311" p "2 ^ 311"] sv pb
    by simp_all
  have "1 / 2 ^ 1022 \<le> x3" "x3 < 2 ^ 1023"
    using x3b by (simp_all add: order_trans [of "1 / 2 ^ 1022" "1 / 2 ^ 256 / 2 ^ 311" x3]
        le_less_trans [of x3 "2 ^ 256 / (1 / 2 ^ 311)" "2 ^ 1023"])
  from fl_range [OF this] obtain l where l: "fl x3 = Fin l" "\<bar>l - x3\<bar> \<le> x3 / 2 ^ 53"
    by blast
  have d3: "f64_div (Fin sv) (Fin p) = Fin l"
    using ppos l(1) by (simp add: x3_def)
  have svpos: "0 < sv"
    using sv(1) by (simp add: less_le_trans [of 0 "1 / 2 ^ 256" sv])
  have "\<bar>l - r\<bar> \<le> 4 * (1 / 2 ^ 53) * r"
    by (rule rel_err_compose [OF rpos svpos, of "1 / 2 ^ 53" p l])
      (use p(2) l(2) in \<open>simp_all add: x2_def x3_def\<close>)
  then have "\<bar>l - r\<bar> \<le> r / 2 ^ 51"
    by simp
  with d1 d2 d3 r(2) show ?thesis
    unfolding x1_def by blast
qed



section \<open>Properties of the environment and of the synthesis\<close>

lemma steadyD: "steady m \<Longrightarrow> m w = (r, w') \<Longrightarrow> noise w' = noise w \<and> (faultless w \<longrightarrow> faultless w')"
  by (simp add: steady_def)

lemma steady_return: "steady (py_return x)"
  by (simp add: steady_def py_return_def)

lemma steady_raise: "steady (py_raise e)"
  by (simp add: steady_def py_raise_def)

lemma steady_lift: "steady (py_lift r)"
  by (simp add: steady_def py_lift_def)

lemma steady_bind: "steady m \<Longrightarrow> (\<And>x. steady (f x)) \<Longrightarrow> steady (py_bind m f)"
  unfolding steady_def py_bind_def
  by (auto split: prod.splits sum.splits)

lemma steady_try: "steady m \<Longrightarrow> (\<And>e. steady (h e)) \<Longrightarrow> steady (py_try m h)"
  unfolding steady_def py_try_def
  by (auto split: prod.splits sum.splits)

lemma steady_alloc: "steady np_alloc"
  by (auto simp: steady_def np_alloc_def faultless_def split: list.splits)

lemma steady_write: "steady (write_file p c)"
proof -
  have "list_all P (tl xs)" if "list_all P xs" for P and xs :: "write_outcome list"
    using that by (cases xs) simp_all
  then show ?thesis
    by (auto simp: steady_def write_file_def faultless_def Let_def split: write_outcome.splits)
qed


lemma np_alloc_cases:
  assumes "np_alloc w = (r, w')"
  shows "files w' = files w" "noise w' = noise w" "writes w' = writes w"
    "r = Inr () \<or> r = Inl MemoryError" "faultless w \<Longrightarrow> r = Inr () \<and> faultless w'"
  using assms by (auto simp: np_alloc_def faultless_def split: list.splits if_splits)

lemma write_file_cases:
  assumes "write_file p c w = (r, w')"
  shows "noise w' = noise w" "allocs w' = allocs w"
    "(r = Inr () \<and> next_write w = WriteOk \<and> files w' = (files w)(p \<mapsto> c))
     \<or> (r = Inl OSError \<and> next_write w = WriteRefused \<and> files w' = files w)
     \<or> (r = Inl OSError \<and> next_write w = WriteBroken \<and> files w' = (files w)(p \<mapsto> Truncated))"
    "faultless w \<Longrightarrow> r = Inr () \<and> faultless w'"
proof -
  have tl: "list_all P (tl xs)" if "list_all P xs" for P and xs :: "write_outcome list"
    using that by (cases xs) simp_all
  show "noise w' = noise w" "allocs w' = allocs w"
    "(r = Inr () \<and> next_write w = WriteOk \<and> files w' = (files w)(p \<mapsto> c))
     \<or> (r = Inl OSError \<and> next_write w = WriteRefused \<and> files w' = files w)
     \<or> (r = Inl OSError \<and> next_write w = WriteBroken \<and> files w' = (files w)(p \<mapsto> Truncated))"
    using assms by (auto simp: write_file_def Let_def split: write_outcome.splits)
  show "r = Inr () \<and> faultless w'" if "faultless w"
  proof -
    have "next_write w = WriteOk"
      using that by (cases "writes w") (simp_all add: faultless_def next_write_def)
    then show ?thesis
      using assms that tl by (auto simp: write_file_def Let_def faultless_def)
  qed
qed

lemma steady_noise: "(\<And>n. steady (g n)) \<Longrightarrow> steady (\<lambda>w. g (noise w) w)"
  by (simp add: steady_def)

lemma steady_gsv: "steady generate_synthetic_volume"
  unfolding generate_synthetic_volume_def np_save_def Let_def
  apply (rule steady_bind [OF steady_alloc])
  apply (rule steady_bind [OF steady_alloc])
  apply (rule steady_bind [OF steady_alloc])
  apply (rule steady_noise)
  apply (intro steady_bind steady_write steady_return)
  done

lemma py_bindE:
  assumes "py_bind m f w = (r, w')"
  obtains (raised) e where "m w = (Inl e, w')" "r = Inl e"
  | (returned) x w1 where "m w = (Inr x, w1)" "f x w1 = (r, w')"
  using assms by (auto simp: py_bind_def split: prod.splits sum.splits)

lemma gsv_result:
  assumes "generate_synthetic_volume w = (r, w')"
  shows "(r = Inr True
          \<and> files w' = (files w)(VOLUME_PATH \<mapsto> NpyFile (F64 (add_noise spheres (noise w))),
                                 SPACING_PATH \<mapsto> NpyFile (F64 unit_spacing)))
       \<or> r = Inl MemoryError \<or> r = Inl OSError"
  using assms unfolding generate_synthetic_volume_def np_save_def Let_def
proof (elim py_bindE, goal_cases)
  case (1 e)
  show ?case using np_alloc_cases(4) [OF 1(1)] 1(2) by auto
next
  case (2 x w1 e)
  show ?case using np_alloc_cases(4) [OF 2(2)] 2(3) by auto
next
  case (3 x w1 y w2 e)
  show ?case using np_alloc_cases(4) [OF 3(3)] 3(4) by auto
next
  case (4 x w1 y w2 z w3 e)
  show ?case using write_file_cases(3) [OF 4(4)] 4(5) by auto
next
  case (5 x w1 y w2 z w3 u w4 e)
  show ?case using write_file_cases(3) [OF 5(5)] 5(6) by auto
next
  case (6 x w1 y w2 z w3 u w4 v w5)
  have same: "files w3 = files w" "noise w3 = noise w"
    using np_alloc_cases(1,2) [OF 6(1)] np_alloc_cases(1,2) [OF 6(2)] np_alloc_cases(1,2) [OF 6(3)]
    by simp_all
  have "files w4 = (files w3)(VOLUME_PATH \<mapsto> NpyFile (F64 (add_noise spheres (noise w3))))"
    using write_file_cases(3) [OF 6(4)] by auto
  moreover have "files w5 = (files w4)(SPACING_PATH \<mapsto> NpyFile (F64 unit_spacing))"
    using write_file_cases(3) [OF 6(5)] by auto
  moreover have "r = Inr True" "w' = w5"
    using 6(6) by (simp_all add: py_return_def)
  ultimately show ?case
    using same by simp
qed

lemma paths_distinct:
  "VOLUME_PATH \<noteq> SPACING_PATH" "SPACING_PATH \<noteq> VOLUME_PATH"
  "SEGMENTED_VOLUME_PATH \<noteq> VOLUME_PATH" "STL_MODEL_PATH \<noteq> SEGMENTED_VOLUME_PATH"
  by (simp_all add: VOLUME_PATH_def SPACING_PATH_def SEGMENTED_VOLUME_PATH_def STL_MODEL_PATH_def
      path_join_def OUTPUT_DIR_def MODELS_DIR_def)

lemma length_concat_blocks:
  "(\<And>x. x \<in> set xs \<Longrightarrow> length (f x) = m) \<Longrightarrow> length (concat (map f xs)) = length xs * m"
  by (induction xs) simp_all

lemma tabulate3_length: "length (data (tabulate3 n f)) = n * n * n"
  by (simp add: tabulate3_def length_concat_blocks [where m = "n * n"]
      length_concat_blocks [where m = n])

lemma spheres_shape: "shape spheres = [128, 128, 128]" "length (data spheres) = 128 * 128 * 128"
  by (simp_all add: spheres_def tabulate3_length vol_size_def) (simp add: tabulate3_def)

lemma spheres_values: "set (data spheres) \<subseteq> {0, 50, 100, 800}"
  by (auto simp: spheres_def tabulate3_def first_pass_def second_pass_def Let_def)

lemma add_noise_shape: "shape (add_noise v n) = shape v" "length (data (add_noise v n)) = length (data v)"
  by (simp_all add: add_noise_def)

lemma add_noise_nth:
  "i < length (data v) \<Longrightarrow> data (add_noise v n) ! i = f64_add (Fin (data v ! i)) (n i)"
  by (simp add: add_noise_def)

lemma steady_store_image: "steady (store_image E img)"
  unfolding store_image_def Let_def np_save_def
  apply (rule steady_bind [OF steady_alloc])
  apply (rule steady_bind [OF steady_alloc])
  apply (rule steady_bind [OF steady_lift])
  apply (simp only: split_paired_all prod.case)
  apply (intro steady_bind steady_write steady_return)
  done

lemma steady_read_series: "steady (read_series E dicom_files)"
  unfolding read_series_def
  by (rule steady_try)
    (auto intro!: steady_bind steady_gsv steady_return steady_raise split: sum.splits option.splits)

lemma steady_decode: "steady (decode_or_synthesize E)"
  by (auto simp: decode_or_synthesize_def Let_def
      intro!: steady_bind steady_gsv steady_raise steady_return steady_store_image steady_read_series
      split: dicom_dir.splits sum.splits)

lemma store_image_True: "store_image E img w = (Inr b, w') \<Longrightarrow> b = True"
  unfolding store_image_def Let_def
  by (elim py_bindE) (auto simp: py_return_def split: prod.splits elim!: py_bindE)


lemma gsv_faultless:
  assumes "faultless w"
  shows "\<exists>w'. generate_synthetic_volume w = (Inr True, w') \<and> faultless w'
           \<and> files w' = (files w)(VOLUME_PATH \<mapsto> NpyFile (F64 (add_noise spheres (noise w))),
                                  SPACING_PATH \<mapsto> NpyFile (F64 unit_spacing))"
proof (cases "generate_synthetic_volume w")
  case (Pair r w')
  have f: "faultless w'"
    using steadyD [OF steady_gsv Pair] assms by simp
  have "r \<noteq> Inl e" for e
  proof
    assume "r = Inl e"
    with Pair have "generate_synthetic_volume w = (Inl e, w')"
      by simp
    then show False
      unfolding generate_synthetic_volume_def np_save_def Let_def
    proof (elim py_bindE, goal_cases)
      case (1 e1)
      then show ?case using np_alloc_cases(5) [OF 1(1) assms] by simp
    next
      case (2 x w1 e1)
      have "faultless w1" using np_alloc_cases(5) [OF 2(1) assms] by simp
      then show ?case using np_alloc_cases(5) [OF 2(2)] by simp
    next
      case (3 x w1 y w2 e1)
      have "faultless w1" using np_alloc_cases(5) [OF 3(1) assms] by simp
      then have "faultless w2" using np_alloc_cases(5) [OF 3(2)] by simp
      then show ?case using np_alloc_cases(5) [OF 3(3)] by simp
    next
      case (4 x w1 y w2 z w3 e1)
      have "faultless w1" using np_alloc_cases(5) [OF 4(1) assms] by simp
      then have "faultless w2" using np_alloc_cases(5) [OF 4(2)] by simp
      then have "faultless w3" using np_alloc_cases(5) [OF 4(3)] by simp
      then show ?case using write_file_cases(4) [OF 4(4)] by simp
    next
      case (5 x w1 y w2 z w3 u w4 e1)
      have "faultless w1" using np_alloc_cases(5) [OF 5(1) assms] by simp
      then have "faultless w2" using np_alloc_cases(5) [OF 5(2)] by simp
      then have "faultless w3" using np_alloc_cases(5) [OF 5(3)] by simp
      then have "faultless w4" using write_file_cases(4) [OF 5(4)] by simp
      then show ?case using write_file_cases(4) [OF 5(5)] by simp
    next
      case (6 x w1 y w2 z w3 u w4 v w5)
      then show ?case by (simp add: py_return_def)
    qed
  qed
  then show ?thesis
    using gsv_result [OF Pair] Pair f by auto
qed

text \<open>
  The inner \<^verbatim>\<open>try\<close> goes on with the image that was found, or ends as a run of the
  synthesis ends: the run of its body or, after that one raised, the run of its handler.
\<close>

lemma read_series_cases:
  assumes "read_series E dicom_files w = (r, w1)"
  shows "(\<exists>img. find_image E dicom_files = Inr (Some img) \<and> r = Inr (Inr img) \<and> w1 = w)
       \<or> ((\<forall>img. find_image E dicom_files \<noteq> Inr (Some img))
           \<and> (\<exists>w0 g. noise w0 = noise w \<and> (faultless w \<longrightarrow> faultless w0)
                 \<and> generate_synthetic_volume w0 = (g, w1) \<and> r = map_sum id Inl g))"
proof (cases "find_image E dicom_files")
  case (Inl e)
  obtain g w2 where g: "generate_synthetic_volume w = (g, w2)"
    by (cases "generate_synthetic_volume w")
  have "r = map_sum id Inl g \<and> w1 = w2"
    using assms Inl g
    by (auto simp: read_series_def py_try_def py_raise_def py_bind_def py_return_def
        split: sum.splits)
  then show ?thesis
    using g Inl by auto
next
  case (Inr found)
  show ?thesis
  proof (cases found)
    case (Some img)
    then show ?thesis
      using assms Inr by (simp add: read_series_def py_try_def py_return_def)
  next
    case None
    obtain g w2 where g: "generate_synthetic_volume w = (g, w2)"
      by (cases "generate_synthetic_volume w")
    show ?thesis
    proof (cases g)
      case (Inr b)
      then have "r = map_sum id Inl g \<and> w1 = w2"
        using assms \<open>find_image E dicom_files = Inr found\<close> None g
        by (simp add: read_series_def py_try_def py_bind_def py_return_def)
      then show ?thesis
        using g \<open>find_image E dicom_files = Inr found\<close> None by auto
    next
      case (Inl e)
      obtain g' w3 where g': "generate_synthetic_volume w2 = (g', w3)"
        by (cases "generate_synthetic_volume w2")
      have "r = map_sum id Inl g' \<and> w1 = w3"
        using assms \<open>find_image E dicom_files = Inr found\<close> None g Inl g'
        by (auto simp: read_series_def py_try_def py_bind_def py_return_def split: sum.splits)
      moreover have "noise w2 = noise w \<and> (faultless w \<longrightarrow> faultless w2)"
        using steadyD [OF steady_gsv g] by simp
      ultimately show ?thesis
        using g' \<open>find_image E dicom_files = Inr found\<close> None by auto
    qed
  qed
qed

text \<open>
  The body of the outer \<^verbatim>\<open>try\<close> ends as the decoding path ends, or with the exception
  of a path that is no directory, or as a run of the synthesis ends.
\<close>

lemma body_cases:
  assumes "decode_or_synthesize E w = (r, w1)"
  shows "(\<exists>entries img. dicom_dir E = Listing entries \<and> entries \<noteq> [] \<and> candidates entries \<noteq> []
            \<and> find_image E (candidates entries) = Inr (Some img) \<and> store_image E img w = (r, w1))
       \<or> (dicom_dir E = NotDir \<and> r = Inl NotADirectoryError \<and> w1 = w)
       \<or> (no_decodable_input E
           \<and> (\<exists>w0. noise w0 = noise w \<and> (faultless w \<longrightarrow> faultless w0)
                 \<and> generate_synthetic_volume w0 = (r, w1)))"
proof (cases "dicom_dir E")
  case Missing
  then show ?thesis
    using assms by (auto simp: decode_or_synthesize_def no_decodable_input_def)
next
  case NotDir
  then show ?thesis
    using assms by (auto simp: decode_or_synthesize_def py_raise_def)
next
  case (Listing entries)
  show ?thesis
  proof (cases "entries = [] \<or> candidates entries = []")
    case True
    then have "generate_synthetic_volume w = (r, w1)" "no_decodable_input E"
      using assms Listing
      by (auto simp: decode_or_synthesize_def Let_def no_decodable_input_def split: if_splits)
    then show ?thesis
      by blast
  next
    case False
    have nd: "no_decodable_input E" if "\<forall>img. find_image E (candidates entries) \<noteq> Inr (Some img)"
      using that Listing by (auto simp: no_decodable_input_def split: sum.splits option.splits)
    have "py_bind (read_series E (candidates entries)) (\<lambda>found.
        case found of Inl b \<Rightarrow> py_return b | Inr img \<Rightarrow> store_image E img) w = (r, w1)"
      using assms Listing False by (simp add: decode_or_synthesize_def Let_def)
    then show ?thesis
    proof (cases rule: py_bindE)
      case (raised e)
      from read_series_cases [OF raised(1)] obtain w0 g where
        a: "\<forall>img. find_image E (candidates entries) \<noteq> Inr (Some img)"
          "noise w0 = noise w" "faultless w \<longrightarrow> faultless w0"
          "generate_synthetic_volume w0 = (g, w1)"
          "(Inl e :: exn + bool + sitk_image) = map_sum id Inl g"
        by auto
      then have "g = r"
        using raised(2) by (cases g) auto
      then show ?thesis
        using a nd by blast
    next
      case (returned x w2)
      from read_series_cases [OF returned(1)] show ?thesis
      proof (elim disjE exE conjE)
        fix img
        assume "find_image E (candidates entries) = Inr (Some img)" "Inr x = Inr (Inr img)" "w2 = w"
        then show ?thesis
          using returned(2) Listing False by auto
      next
        fix w0 g
        assume a: "\<forall>img. find_image E (candidates entries) \<noteq> Inr (Some img)"
          "noise w0 = noise w" "faultless w \<longrightarrow> faultless w0"
          "generate_synthetic_volume w0 = (g, w2)" "Inr x = map_sum id Inl g"
        then obtain b where "g = Inr b" "x = Inl b"
          by (cases g) auto
        then have "r = g \<and> w1 = w2"
          using returned(2) by (simp add: py_return_def)
        then show ?thesis
          using a nd by blast
      qed
    qed
  qed
qed

lemma decode_returns_True: "decode_or_synthesize E w = (Inr b, w') \<Longrightarrow> b = True"
  using body_cases [of E w "Inr b" w'] gsv_result [of _ "Inr b" w'] store_image_True [of E _ w b w']
  by auto

lemma no_input_not_decodes: "no_decodable_input E \<Longrightarrow> \<not> decodes E w"
  by (auto simp: no_decodable_input_def decodes_def split: dicom_dir.splits sum.splits option.splits)

lemma process_dicom_faultless:
  assumes "faultless w"
  shows "\<exists>w'. process_dicom E w = (Inr True, w') \<and> faultless w'"
proof (cases "decode_or_synthesize E w")
  case (Pair r1 w1)
  have f1: "faultless w1"
    using steadyD [OF steady_decode Pair] assms by simp
  show ?thesis
  proof (cases r1)
    case (Inl e)
    then show ?thesis
      using Pair gsv_faultless [OF f1] by (auto simp: process_dicom_def py_try_def)
  next
    case (Inr b)
    then show ?thesis
      using Pair f1 decode_returns_True [of E w b w1] by (simp add: process_dicom_def py_try_def)
  qed
qed

lemma not_decodes_body:
  assumes "\<not> decodes E w" "decode_or_synthesize E w = (Inr b, w1)"
  shows "\<exists>w0. noise w0 = noise w \<and> generate_synthetic_volume w0 = (Inr b, w1)"
proof -
  have "\<not> (dicom_dir E = Listing entries \<and> entries \<noteq> [] \<and> candidates entries \<noteq> []
            \<and> find_image E (candidates entries) = Inr (Some img)
            \<and> store_image E img w = (Inr b, w1))" for entries img
    using assms(1) store_image_True [of E img w b w1] by (auto simp: decodes_def)
  then show ?thesis
    using body_cases [OF assms(2)] by blast
qed

lemma fallback_files:
  assumes nd: "\<not> decodes E w" and run: "process_dicom E w = (Inr r, w')"
  shows "files w' VOLUME_PATH = Some (NpyFile (F64 (add_noise spheres (noise w))))
       \<and> files w' SPACING_PATH = Some (NpyFile (F64 unit_spacing))"
proof (cases "decode_or_synthesize E w")
  case (Pair r1 w1)
  show ?thesis
  proof (cases r1)
    case (Inl e)
    then have g: "generate_synthetic_volume w1 = (Inr r, w')"
      using Pair run by (simp add: process_dicom_def py_try_def)
    have "noise w1 = noise w"
      using steadyD [OF steady_decode Pair] by simp
    then show ?thesis
      using gsv_result [OF g] by (auto simp: paths_distinct)
  next
    case (Inr b)
    then have "w' = w1" "r = b"
      using Pair run by (simp_all add: process_dicom_def py_try_def)
    then obtain w0 where "noise w0 = noise w" "generate_synthetic_volume w0 = (Inr r, w')"
      using not_decodes_body [OF nd] Pair Inr by blast
    then show ?thesis
      using gsv_result [of w0 "Inr r" w'] by (auto simp: paths_distinct)
  qed
qed

text \<open>
  The three routes of the body on which the number of runs of the synthesis differs: on
  the route where no slice could be read the synthesis runs in the body of the inner
  \<^verbatim>\<open>try\<close> and again in its handler.
\<close>

lemma body_no_slice:
  assumes "dicom_dir E = Listing entries" "candidates entries \<noteq> []"
    and "find_image E (candidates entries) = Inr None"
  shows "decode_or_synthesize E
       = py_try generate_synthetic_volume (\<lambda>_. generate_synthetic_volume)"
proof -
  have "entries \<noteq> []"
    using assms(2) by (auto simp: candidates_def)
  then have "decode_or_synthesize E w
      = py_try generate_synthetic_volume (\<lambda>_. generate_synthetic_volume) w" for w
    using assms
    by (cases "generate_synthetic_volume w"; cases "fst (generate_synthetic_volume w)";
        cases "generate_synthetic_volume (snd (generate_synthetic_volume w))";
        cases "fst (generate_synthetic_volume (snd (generate_synthetic_volume w)))")
      (simp_all add: decode_or_synthesize_def read_series_def py_try_def py_bind_def py_return_def
        Let_def)
  then show ?thesis
    by (rule ext)
qed

lemma body_decoding:
  assumes "dicom_dir E = Listing entries" "candidates entries \<noteq> []"
    and "find_image E (candidates entries) = Inr (Some img)"
  shows "decode_or_synthesize E = store_image E img"
proof -
  have "entries \<noteq> []"
    using assms(2) by (auto simp: candidates_def)
  then show ?thesis
    using assms
    by (intro ext)
      (simp add: decode_or_synthesize_def read_series_def py_try_def py_bind_def py_return_def
        Let_def)
qed
section \<open>Properties of the mask segmenter\<close>

lemma npy_gt_shape: "shape (npy_gt a t) = npy_shape a"
  by (cases a) simp_all

lemma npy_gt_length: "length (data (npy_gt a t)) = length (npy_values a)"
  by (cases a) simp_all

lemma npy_gt_nth:
  assumes "v < length (npy_values a)"
  shows "data (npy_gt a t) ! v = f64_gt (npy_values a ! v) (Fin (of_int t))"
proof (cases a)
  case (F64 x)
  with assms show ?thesis by simp
next
  case (I16 x)
  have "(t < sint y) = (rat_of_int t < rat_of_int (sint y))" for y :: "16 word"
    by (simp only: of_int_less_iff)
  with I16 assms show ?thesis by (simp del: of_int_sint)
next
  case (U8 x)
  have "(t < uint y) = (rat_of_int t < rat_of_int (uint y))" for y :: "8 word"
    by (simp only: of_int_less_iff)
  with U8 assms show ?thesis by (simp del: of_int_uint)
qed

lemma astype_uint8_nth:
  "v < length (data b) \<Longrightarrow> data (astype_uint8 b) ! v = (if data b ! v then 1 else 0)"
  by (simp add: astype_uint8_def)

text \<open>
  C1. When the volume artifact holds an array and the store accepts the write,
  \<^verbatim>\<open>run_segmentation\<close> returns True and leaves at the mask path a uint8 array of the
  shape of the volume and with as many elements; each element is 0 or 1, and it is 1
  exactly when the voxel is greater than 200. For a finite voxel \<open>x\<close> that is \<open>200 < x\<close>,
  so that a voxel equal to 200 gives 0; a NaN voxel gives 0.
\<close>

theorem run_segmentation_mask:
  assumes "np_load VOLUME_PATH w = Inr volume"
    and "next_write w = WriteOk"
  shows "\<exists>mask w'. run_segmentation w = (Inr True, w')
           \<and> files w' SEGMENTED_VOLUME_PATH = Some (NpyFile (U8 mask))
           \<and> shape mask = npy_shape volume
           \<and> length (data mask) = length (npy_values volume)
           \<and> (\<forall>v < length (npy_values volume).
                 (data mask ! v = 0 \<or> data mask ! v = 1)
               \<and> (data mask ! v = 1 \<longleftrightarrow> f64_gt (npy_values volume ! v) (Fin 200))
               \<and> (\<forall>x. npy_values volume ! v = Fin x \<longrightarrow> (data mask ! v = 1 \<longleftrightarrow> 200 < x))
               \<and> (npy_values volume ! v = Fin 200 \<longrightarrow> data mask ! v = 0))"
proof -
  let ?b = "npy_gt volume threshold"
  let ?m = "astype_uint8 ?b"
  let ?w' = "w\<lparr>writes := tl (writes w), files := (files w)(SEGMENTED_VOLUME_PATH \<mapsto> NpyFile (U8 ?m))\<rparr>"
  have run: "run_segmentation w = (Inr True, ?w')"
    using assms by (simp add: run_segmentation_def np_save_def write_file_def)
  have len: "length (data ?b) = length (npy_values volume)"
    by (rule npy_gt_length)
  have elem: "data ?m ! v = (if f64_gt (npy_values volume ! v) (Fin 200) then 1 else 0)"
    if "v < length (npy_values volume)" for v
    using that len by (simp add: astype_uint8_nth npy_gt_nth threshold_def)
  have "files ?w' SEGMENTED_VOLUME_PATH = Some (NpyFile (U8 ?m))"
    by simp
  moreover have "shape ?m = npy_shape volume"
    by (simp add: astype_uint8_def npy_gt_shape)
  moreover have "length (data ?m) = length (npy_values volume)"
    by (simp add: astype_uint8_def len)
  moreover have "(data ?m ! v = 0 \<or> data ?m ! v = 1)
      \<and> (data ?m ! v = 1 \<longleftrightarrow> f64_gt (npy_values volume ! v) (Fin 200))
      \<and> (\<forall>x. npy_values volume ! v = Fin x \<longrightarrow> (data ?m ! v = 1 \<longleftrightarrow> 200 < x))
      \<and> (npy_values volume ! v = Fin 200 \<longrightarrow> data ?m ! v = 0)"
    if "v < length (npy_values volume)" for v
    using elem [OF that] by auto
  ultimately show ?thesis
    using run by blast
qed

theorem run_segmentation_mask_witness:
  "np_load VOLUME_PATH seg_world = Inr seg_volume \<and> next_write seg_world = WriteOk
   \<and> (\<exists>w'. run_segmentation seg_world = (Inr True, w')
         \<and> files w' SEGMENTED_VOLUME_PATH
             = Some (NpyFile (U8 \<lparr>shape = [1, 1, 3], data = [0, 0, 1]\<rparr>)))"
proof -
  have h1: "np_load VOLUME_PATH seg_world = Inr seg_volume"
    by (simp add: np_load_def seg_world_def)
  have h2: "next_write seg_world = WriteOk"
    by (simp add: next_write_def seg_world_def)
  obtain mask w' where run: "run_segmentation seg_world = (Inr True, w')"
    and stored: "files w' SEGMENTED_VOLUME_PATH = Some (NpyFile (U8 mask))"
    and sh: "shape mask = npy_shape seg_volume"
    and len: "length (data mask) = length (npy_values seg_volume)"
    and el: "\<forall>v < length (npy_values seg_volume).
                 (data mask ! v = 0 \<or> data mask ! v = 1)
               \<and> (data mask ! v = 1 \<longleftrightarrow> f64_gt (npy_values seg_volume ! v) (Fin 200))
               \<and> (\<forall>x. npy_values seg_volume ! v = Fin x \<longrightarrow> (data mask ! v = 1 \<longleftrightarrow> 200 < x))
               \<and> (npy_values seg_volume ! v = Fin 200 \<longrightarrow> data mask ! v = 0)"
    using run_segmentation_mask [OF h1 h2] by blast
  have vals: "npy_values seg_volume = [Fin 199, Fin 200, Fin 201]"
    by (simp add: seg_volume_def)
  have "data mask ! 0 = 0" "data mask ! 1 = 0" "data mask ! 2 = 1"
    using el [rule_format, of 0] el [rule_format, of 1] el [rule_format, of 2]
    by (auto simp: vals)
  moreover have "length (data mask) = 3"
    using len by (simp add: vals)
  ultimately have "data mask = [0, 0, 1]"
    by (auto simp: list_eq_iff_nth_eq less_Suc_eq numeral_3_eq_3 numeral_2_eq_2)
  moreover have "shape mask = [1, 1, 3]"
    using sh by (simp add: seg_volume_def)
  ultimately have "mask = \<lparr>shape = [1, 1, 3], data = [0, 0, 1]\<rparr>"
    by (cases mask) simp
  with run stored h1 h2 show ?thesis
    by blast
qed
text \<open>
  C2, as amended. On an axis with a positive voxel count \<open>c\<close> below \<open>2 ^ 53\<close>, a spacing
  between \<open>1 / 2 ^ 256\<close> and \<open>2 ^ 256\<close> and a positive rounded target count \<open>n\<close> below
  \<open>2 ^ 53\<close>, the resize factor \<open>r\<close> that \<^verbatim>\<open>resample\<close> computes is the float64 nearest to
  \<open>n / c\<close>, and the quotient of the original spacing by the reported new spacing, computed
  in float64, differs from \<open>r\<close> by at most \<open>r / 2 ^ 51\<close>: the reported spacing reflects the
  rounded grid up to the rounding of the float64 divisions.
\<close>

theorem resample_spacing_tolerance:
  assumes len: "length s = length shp" "length t = length shp" and i: "i < length shp"
    and sv: "s ! i = Fin sv" "1 / 2 ^ 256 \<le> sv" "sv \<le> 2 ^ 256"
    and c: "1 \<le> shp ! i" "shp ! i < 2 ^ 53"
    and n: "f64_round (f64_mul (f64_of_nat (shp ! i)) (f64_div (s ! i) (t ! i))) = Fin (of_int n)"
      "1 \<le> n" "n < 2 ^ 53"
  shows "\<exists>factor spacing r p l.
           resample_factors shp s t = Inr (factor, spacing)
         \<and> factor ! i = Fin r \<and> spacing ! i = Fin p
         \<and> f64_div (s ! i) (spacing ! i) = Fin l
         \<and> \<bar>r - of_int n / of_nat (shp ! i)\<bar> \<le> of_int n / of_nat (shp ! i) / 2 ^ 53
         \<and> \<bar>l - r\<bar> \<le> r / 2 ^ 51"
proof -
  obtain r p l where a: "f64_div (Fin (of_int n)) (f64_of_nat (shp ! i)) = Fin r"
    "f64_div (Fin sv) (Fin r) = Fin p" "f64_div (Fin sv) (Fin p) = Fin l"
    "\<bar>r - of_int n / of_nat (shp ! i)\<bar> \<le> of_int n / of_nat (shp ! i) / 2 ^ 53"
    "\<bar>l - r\<bar> \<le> r / 2 ^ 51"
    using axis_rounding [OF sv(2,3) c n(2,3)] by blast
  have f: "axis_factor (shp ! i) (s ! i) (t ! i) = Fin r"
    by (simp add: axis_factor_def n(1) a(1))
  let ?factor = "map (\<lambda>i. axis_factor (shp ! i) (s ! i) (t ! i)) [0..<length shp]"
  let ?spacing = "map (\<lambda>i. f64_div (s ! i) (axis_factor (shp ! i) (s ! i) (t ! i))) [0..<length shp]"
  have "resample_factors shp s t = Inr (?factor, ?spacing)"
    by (rule resample_factors_same_length [OF len])
  moreover have "?factor ! i = Fin r"
    using i f by simp
  moreover have "?spacing ! i = Fin p"
    using i f a(2) sv(1) by simp
  moreover have "f64_div (s ! i) (Fin p) = Fin l"
    using a(3) sv(1) by simp
  ultimately show ?thesis
    using a(4,5) by (metis (no_types, lifting))
qed

theorem resample_spacing_tolerance_witness:
  "\<exists>factor spacing r p l.
     resample_factors [3, 1, 1] [Fin (7 / 2), Fin 1, Fin 1] default_new_spacing = Inr (factor, spacing)
   \<and> factor ! 0 = Fin r \<and> spacing ! 0 = Fin p
   \<and> f64_div ([Fin (7 / 2), Fin 1, Fin 1] ! 0) (spacing ! 0) = Fin l
   \<and> \<bar>r - of_int 10 / of_nat ([3, 1, 1] ! 0)\<bar> \<le> of_int 10 / of_nat ([3, 1, 1] ! 0) / 2 ^ 53
   \<and> \<bar>l - r\<bar> \<le> r / 2 ^ 51"
  by (rule resample_spacing_tolerance [where sv = "7 / 2" and n = 10])
    (simp_all add: default_new_spacing_def f64_of_nat_def fl_examples fl_7_2 fl_21_2
      round_half_even_def Let_def floor_rat_numeral)

text \<open>
  C2, as stated, fails. For 3 slices with a spacing of 3.5 and the target spacing 1, the
  target count is \<open>round(10.5) = 10\<close> and the factor is the float64 nearest to \<open>10 / 3\<close>,
  3.3333333333333335. The new spacing is 1.05 (rounded), and \<open>3.5 / 1.05\<close> in float64 is
  3.333333333333333, the float64 just below: the two sides of the law differ in the
  last bit.
\<close>

theorem resample_spacing_counterexample:
  "resample_factors [3, 1, 1] [Fin (7 / 2), Fin 1, Fin 1] default_new_spacing
     = Inr ([Fin (7505999378950827 / 2251799813685248), Fin 1, Fin 1],
            [Fin (4728779608739021 / 4503599627370496), Fin 1, Fin 1])
   \<and> f64_div (Fin (7 / 2)) (Fin (4728779608739021 / 4503599627370496))
     = Fin (3752999689475413 / 1125899906842624)
   \<and> f64_div (f64_round (f64_div (f64_mul (f64_of_nat 3) (Fin (7 / 2))) (Fin 1))) (f64_of_nat 3)
     = Fin (7505999378950827 / 2251799813685248)
   \<and> \<not> f64_eq (Fin (3752999689475413 / 1125899906842624))
          (Fin (7505999378950827 / 2251799813685248))"
  by (simp add: resample_factors_def broadcast2_def default_new_spacing_def f64_of_nat_def
      fl_examples fl_7_2 fl_21_2 fl_10_3 fl_7_2_div_a fl_7_2_div_b
      round_half_even_def Let_def floor_rat_numeral)


text \<open>One slice with a spacing of 0.25, and one slice with a spacing of -1.\<close>



section \<open>Properties of the intensity normalizer\<close>

text \<open>
  C7, as amended. The normalizer keeps the shape and the number of voxels, and each
  voxel of the result depends on the decoded voxel at the same index only: it is 0 when
  the decoded value converted to int16 is -2000, and the converted value otherwise. A
  decoded -2000 gives 0, and a decoded value of the range of int16 other than -2000 is
  kept.
\<close>

theorem convert_to_hu_voxels:
  "shape (convert_to_hu a) = shape a
   \<and> length (data (convert_to_hu a)) = length (data a)
   \<and> (\<forall>i < length (data a).
         data (convert_to_hu a) ! i
           = (if (word_of_int (data a ! i) :: 16 word) = - 2000 then 0
              else word_of_int (data a ! i))
       \<and> (data a ! i = - 2000 \<longrightarrow> data (convert_to_hu a) ! i = 0)
       \<and> (- 32768 \<le> data a ! i \<and> data a ! i < 32768 \<and> data a ! i \<noteq> - 2000
            \<longrightarrow> sint (data (convert_to_hu a) ! i) = data a ! i))"
proof -
  have in_range: "sint (word_of_int x :: 16 word) = x" if "- 32768 \<le> x" "x < 32768" for x :: int
    using that by (simp add: sint_sbintrunc' signed_take_bit_int_eq_self)
  have "(word_of_int x :: 16 word) \<noteq> - 2000" if "- 32768 \<le> x" "x < 32768" "x \<noteq> - 2000" for x :: int
  proof
    assume "(word_of_int x :: 16 word) = - 2000"
    then have "sint (word_of_int x :: 16 word) = sint (- 2000 :: 16 word)"
      by simp
    then show False
      using that by (simp add: in_range)
  qed
  then show ?thesis
    by (auto simp: convert_to_hu_def clear_sentinel_def astype_int16_def in_range)
qed

theorem convert_to_hu_voxels_witness:
  "shape (convert_to_hu \<lparr>shape = [1, 1, 3], data = [- 2000, 63536, 40]\<rparr>) = [1, 1, 3]
   \<and> data (convert_to_hu \<lparr>shape = [1, 1, 3], data = [- 2000, 63536, 40]\<rparr>) = [0, 0, 40]"
  using convert_to_hu_voxels [of "\<lparr>shape = [1, 1, 3], data = [- 2000, 63536, 40]\<rparr>"]
  by (simp add: convert_to_hu_def clear_sentinel_def astype_int16_def)

text \<open>
  C7, as stated, fails for a decoded value that is not -2000 but wraps to it: 63536,
  a value of an unsigned 16-bit image, is -2000 after the conversion, not 0, and the
  normalizer writes 0.
\<close>

theorem convert_to_hu_counterexample:
  "(63536 :: int) \<noteq> - 2000
   \<and> (word_of_int 63536 :: 16 word) \<noteq> 0
   \<and> data (convert_to_hu \<lparr>shape = [1, 1, 1], data = [63536]\<rparr>) = [0]"
  by (simp add: convert_to_hu_def clear_sentinel_def astype_int16_def)

section \<open>Properties of the volume source\<close>

lemmas run_defs = process_dicom_def py_try_def decode_or_synthesize_def
  generate_synthetic_volume_def py_bind_def py_return_def py_raise_def py_lift_def
  np_alloc_def np_save_def write_file_def next_write_def Let_def

text \<open>
  C3. When the input directory is missing, is empty, has no candidate file or gives no
  image, and no allocation and no write fails, \<^verbatim>\<open>process_dicom\<close> returns True and
  leaves at the volume path a float64 array of shape (128, 128, 128), with 128 * 128 * 128
  elements, and at the spacing path the vector (1.0, 1.0, 1.0).
\<close>

theorem process_dicom_synthesis:
  assumes "no_decodable_input E" and "faultless w"
  shows "\<exists>volume w'. process_dicom E w = (Inr True, w')
           \<and> files w' VOLUME_PATH = Some (NpyFile (F64 volume))
           \<and> shape volume = [128, 128, 128]
           \<and> length (data volume) = 128 * 128 * 128
           \<and> files w' SPACING_PATH
               = Some (NpyFile (F64 \<lparr>shape = [3], data = [Fin 1, Fin 1, Fin 1]\<rparr>))"
proof -
  obtain w' where p: "process_dicom E w = (Inr True, w')"
    using process_dicom_faultless [OF assms(2)] by blast
  have f: "files w' VOLUME_PATH = Some (NpyFile (F64 (add_noise spheres (noise w))))"
    "files w' SPACING_PATH = Some (NpyFile (F64 unit_spacing))"
    using fallback_files [OF no_input_not_decodes [OF assms(1)] p] by simp_all
  note p f(1)
  moreover have "files w' SPACING_PATH
      = Some (NpyFile (F64 \<lparr>shape = [3], data = [Fin 1, Fin 1, Fin 1]\<rparr>))"
    using f(2) by (simp add: unit_spacing_def)
  moreover have "shape (add_noise spheres (noise w)) = [128, 128, 128]"
    "length (data (add_noise spheres (noise w))) = 128 * 128 * 128"
    by (simp_all add: add_noise_shape spheres_shape)
  ultimately show ?thesis
    by blast
qed

theorem process_dicom_synthesis_witness:
  "\<exists>volume w'. process_dicom env_missing empty_world = (Inr True, w')
     \<and> files w' VOLUME_PATH = Some (NpyFile (F64 volume))
     \<and> shape volume = [128, 128, 128]
     \<and> length (data volume) = 128 * 128 * 128
     \<and> files w' SPACING_PATH
         = Some (NpyFile (F64 \<lparr>shape = [3], data = [Fin 1, Fin 1, Fin 1]\<rparr>))"
  by (rule process_dicom_synthesis)
    (simp_all add: no_decodable_input_def env_missing_def faultless_def empty_world_def)

text \<open>
  C10. When the decoding path does not run to its end, every successful return of
  \<^verbatim>\<open>process_dicom\<close> leaves at the volume path the array of the synthesis as it was
  generated, a float64 array of shape (128, 128, 128) whose element at each index is the
  float64 sum of the voxel of the spheres, one of 0, 50, 100 and 800, and the noise drawn
  for that index; neither the int16 conversion with its sentinel test nor the resampling
  has touched it, and it is the array \<^verbatim>\<open>np.load\<close> gives to the segmenter. The spacing
  path holds the unit spacing. Such a return exists whenever no allocation and no write
  fails.
\<close>

theorem fallback_stores_raw_volume:
  assumes "\<not> decodes E w"
  shows "(faultless w \<longrightarrow> (\<exists>w'. process_dicom E w = (Inr True, w')))
       \<and> (\<forall>r w'. process_dicom E w = (Inr r, w') \<longrightarrow>
             files w' VOLUME_PATH = Some (NpyFile (F64 (add_noise spheres (noise w))))
           \<and> np_load VOLUME_PATH w' = Inr (F64 (add_noise spheres (noise w)))
           \<and> files w' SPACING_PATH = Some (NpyFile (F64 unit_spacing)))
       \<and> shape (add_noise spheres (noise w)) = [128, 128, 128]
       \<and> set (data spheres) \<subseteq> {0, 50, 100, 800}
       \<and> (\<forall>i < 128 * 128 * 128.
             data (add_noise spheres (noise w)) ! i = f64_add (Fin (data spheres ! i)) (noise w i))"
proof -
  have "\<exists>w'. process_dicom E w = (Inr True, w')" if "faultless w"
    using process_dicom_faultless [OF that] by blast
  moreover have "files w' VOLUME_PATH = Some (NpyFile (F64 (add_noise spheres (noise w))))
      \<and> np_load VOLUME_PATH w' = Inr (F64 (add_noise spheres (noise w)))
      \<and> files w' SPACING_PATH = Some (NpyFile (F64 unit_spacing))"
    if "process_dicom E w = (Inr r, w')" for r w'
    using fallback_files [OF assms that] by (simp add: np_load_def)
  moreover have "data (add_noise spheres (noise w)) ! i = f64_add (Fin (data spheres ! i)) (noise w i)"
    if "i < 128 * 128 * 128" for i
    using that by (simp add: add_noise_nth spheres_shape)
  ultimately show ?thesis
    using spheres_values by (simp add: add_noise_shape spheres_shape)
qed

theorem fallback_stores_raw_volume_witness:
  "\<not> decodes env_missing empty_world
   \<and> (\<exists>w'. process_dicom env_missing empty_world = (Inr True, w')
         \<and> np_load VOLUME_PATH w' = Inr (F64 (add_noise spheres (\<lambda>_. Fin 0))))"
proof -
  have nd: "\<not> decodes env_missing empty_world"
    by (simp add: decodes_def env_missing_def)
  have fl: "faultless empty_world"
    by (simp add: faultless_def empty_world_def)
  have n: "noise empty_world = (\<lambda>_. Fin 0)"
    by (simp add: empty_world_def)
  from fallback_stores_raw_volume [OF nd] fl
  obtain w' where "process_dicom env_missing empty_world = (Inr True, w')"
    by blast
  moreover from this fallback_stores_raw_volume [OF nd]
  have "np_load VOLUME_PATH w' = Inr (F64 (add_noise spheres (noise empty_world)))"
    by blast
  ultimately show ?thesis
    using nd n by auto
qed

text \<open>
  C4, as amended. \<^verbatim>\<open>process_dicom\<close> raises exactly when the body of its \<^verbatim>\<open>try\<close> raised
  and the \<^verbatim>\<open>generate_synthetic_volume()\<close> of its handler raises as well; the exception
  is then the \<^verbatim>\<open>MemoryError\<close> of an allocation or the \<^verbatim>\<open>OSError\<close> of a write of that
  last synthesis, and the pipeline answers with a failure that carries it. On the
  decoding path the body raises when the conversion, the resampling or a save raises.
  Where no slice could be read the synthesis of the body runs inside the inner \<^verbatim>\<open>try\<close>,
  whose handler runs it again: \<^verbatim>\<open>process_dicom\<close> raises there exactly when three runs of
  the synthesis raise one after the other.
\<close>

theorem process_dicom_failure:
  "(fst (process_dicom E w) = Inl e
      \<longleftrightarrow> (\<exists>e0 w1. decode_or_synthesize E w = (Inl e0, w1)
                  \<and> fst (generate_synthetic_volume w1) = Inl e))
   \<and> (fst (process_dicom E w) = Inl e
        \<longrightarrow> (e = MemoryError \<or> e = OSError) \<and> fst (start_processing E w) = Failure e)
   \<and> (dicom_dir E = Listing entries \<and> candidates entries \<noteq> []
        \<and> find_image E (candidates entries) = Inr (Some img)
        \<longrightarrow> (fst (process_dicom E w) = Inl e
              \<longleftrightarrow> (\<exists>e0 w1. store_image E img w = (Inl e0, w1)
                          \<and> fst (generate_synthetic_volume w1) = Inl e)))
   \<and> (dicom_dir E = Listing entries \<and> candidates entries \<noteq> []
        \<and> find_image E (candidates entries) = Inr None
        \<longrightarrow> (fst (process_dicom E w) = Inl e
              \<longleftrightarrow> (\<exists>e1 w1 e2 w2. generate_synthetic_volume w = (Inl e1, w1)
                          \<and> generate_synthetic_volume w1 = (Inl e2, w2)
                          \<and> fst (generate_synthetic_volume w2) = Inl e)))"
proof -
  have a: "fst (process_dicom E w) = Inl e
      \<longleftrightarrow> (\<exists>e0 w1. decode_or_synthesize E w = (Inl e0, w1)
                  \<and> fst (generate_synthetic_volume w1) = Inl e)"
    by (cases "decode_or_synthesize E w")
      (auto simp: process_dicom_def py_try_def split: sum.splits)
  have b: "e = MemoryError \<or> e = OSError" if "fst (generate_synthetic_volume w1) = Inl e" for w1
    using that gsv_result [of w1 "Inl e" "snd (generate_synthetic_volume w1)"]
    by (cases "generate_synthetic_volume w1") auto
  have c: "fst (start_processing E w) = Failure e" if "fst (process_dicom E w) = Inl e"
    using that by (cases "process_dicom E w") (simp add: start_processing_def py_bind_def)
  have d: "fst (process_dicom E w) = Inl e
      \<longleftrightarrow> (\<exists>e0 w1. store_image E img w = (Inl e0, w1)
                  \<and> fst (generate_synthetic_volume w1) = Inl e)"
    if "dicom_dir E = Listing entries" "candidates entries \<noteq> []"
      "find_image E (candidates entries) = Inr (Some img)"
    unfolding a body_decoding [OF that] ..
  have t: "fst (process_dicom E w) = Inl e
      \<longleftrightarrow> (\<exists>e1 w1 e2 w2. generate_synthetic_volume w = (Inl e1, w1)
                  \<and> generate_synthetic_volume w1 = (Inl e2, w2)
                  \<and> fst (generate_synthetic_volume w2) = Inl e)"
    if "dicom_dir E = Listing entries" "candidates entries \<noteq> []"
      "find_image E (candidates entries) = Inr None"
    unfolding a body_no_slice [OF that]
    by (cases "generate_synthetic_volume w")
      (auto simp: py_try_def split: sum.splits prod.splits)
  show ?thesis
    using a b c d t by blast
qed

text \<open>
  Three refused writes where no slice could be read, and a failed allocation followed by
  a refused write where a slice was read.
\<close>

theorem process_dicom_failure_witness:
  "fst (process_dicom env_unreadable
          (empty_world\<lparr>writes := [WriteRefused, WriteRefused, WriteRefused]\<rparr>)) = Inl OSError
   \<and> fst (start_processing env_unreadable
          (empty_world\<lparr>writes := [WriteRefused, WriteRefused, WriteRefused]\<rparr>)) = Failure OSError
   \<and> fst (process_dicom env_one_slice
          (empty_world\<lparr>allocs := [False], writes := [WriteRefused]\<rparr>)) = Inl OSError
   \<and> fst (start_processing env_one_slice
          (empty_world\<lparr>allocs := [False], writes := [WriteRefused]\<rparr>)) = Failure OSError"
proof -
  let ?w = "empty_world\<lparr>writes := [WriteRefused, WriteRefused, WriteRefused]\<rparr>"
  let ?v = "empty_world\<lparr>allocs := [False], writes := [WriteRefused]\<rparr>"
  have r: "dicom_dir env_unreadable = Listing [(''slice.dcm'', True)]
      \<and> candidates [(''slice.dcm'', True)] \<noteq> []
      \<and> find_image env_unreadable (candidates [(''slice.dcm'', True)]) = Inr None"
    by (simp add: env_unreadable_def env_missing_def find_image_def read_slices_def
        candidates_def is_candidate_def endswith_def lower_char_def)
  have g: "generate_synthetic_volume ?w
        = (Inl OSError, empty_world\<lparr>writes := [WriteRefused, WriteRefused]\<rparr>)"
    "generate_synthetic_volume (empty_world\<lparr>writes := [WriteRefused, WriteRefused]\<rparr>)
        = (Inl OSError, empty_world\<lparr>writes := [WriteRefused]\<rparr>)"
    "fst (generate_synthetic_volume (empty_world\<lparr>writes := [WriteRefused]\<rparr>)) = Inl OSError"
    by (simp_all add: run_defs empty_world_def)
  have s: "dicom_dir env_one_slice = Listing [(''slice.dcm'', True)]
      \<and> candidates [(''slice.dcm'', True)] \<noteq> []
      \<and> find_image env_one_slice (candidates [(''slice.dcm'', True)]) = Inr (Some one_slice)"
    by (simp add: env_one_slice_def env_missing_def find_image_def
        candidates_def is_candidate_def endswith_def lower_char_def)
  have h: "store_image env_one_slice one_slice ?v
        = (Inl MemoryError, empty_world\<lparr>allocs := [], writes := [WriteRefused]\<rparr>)"
    "fst (generate_synthetic_volume (empty_world\<lparr>allocs := [], writes := [WriteRefused]\<rparr>))
        = Inl OSError"
    by (simp_all add: run_defs store_image_def empty_world_def)
  have "fst (process_dicom env_unreadable ?w) = Inl OSError"
    using process_dicom_failure
      [of env_unreadable ?w OSError "[(''slice.dcm'', True)]"] r g by blast
  moreover have "fst (process_dicom env_one_slice ?v) = Inl OSError"
    using process_dicom_failure
      [of env_one_slice ?v OSError "[(''slice.dcm'', True)]" one_slice] s h by blast
  ultimately show ?thesis
    using process_dicom_failure [of env_unreadable ?w OSError]
      process_dicom_failure [of env_one_slice ?v OSError]
    by blast
qed

text \<open>
  C4, as stated, fails in both of its halves. A write that fails is absorbed: without
  input directory and with a first write that is refused, the synthesis raises
  \<^verbatim>\<open>OSError\<close>, the handler runs the synthesis again, and \<^verbatim>\<open>process_dicom\<close> returns
  True; where no slice could be read, two refused writes are absorbed, by the handler of
  the inner \<^verbatim>\<open>try\<close> and by that of the outer one. And more than the absence of input is
  absorbed: with a readable slice and an allocation that fails in the conversion, the
  decoding path raises \<^verbatim>\<open>MemoryError\<close>, and \<^verbatim>\<open>process_dicom\<close> returns True with the
  synthetic volume.
\<close>

theorem process_dicom_absorbs_counterexample:
  "fst (generate_synthetic_volume (empty_world\<lparr>writes := [WriteRefused]\<rparr>)) = Inl OSError
   \<and> fst (process_dicom env_missing (empty_world\<lparr>writes := [WriteRefused]\<rparr>)) = Inr True
   \<and> find_image env_unreadable (candidates [(''slice.dcm'', True)]) = Inr None
   \<and> fst (process_dicom env_unreadable (empty_world\<lparr>writes := [WriteRefused, WriteRefused]\<rparr>))
     = Inr True
   \<and> find_image env_one_slice (candidates [(''slice.dcm'', True)]) = Inr (Some one_slice)
   \<and> fst (store_image env_one_slice one_slice (empty_world\<lparr>allocs := [False]\<rparr>)) = Inl MemoryError
   \<and> fst (process_dicom env_one_slice (empty_world\<lparr>allocs := [False]\<rparr>)) = Inr True"
  by (simp add: run_defs env_missing_def env_one_slice_def env_unreadable_def empty_world_def
      find_image_def read_series_def read_slices_def
      store_image_def candidates_def is_candidate_def endswith_def lower_char_def)
section \<open>Properties of the surface extractor and the mesh serializer\<close>

















end
